theory Spec2Isabelle
  imports Main
begin

section \<open>Values crossing the boundary of \<^verbatim>\<open>main.ts\<close>\<close>

text \<open>
  \<^verbatim>\<open>src/main.ts\<close> is the publish orchestrator. Everything it calls lives in other modules
  (\<^verbatim>\<open>./config\<close>, \<^verbatim>\<open>./fs-helper\<close>, \<^verbatim>\<open>./oci-container\<close>, \<^verbatim>\<open>./ghcr-client\<close>,
  \<^verbatim>\<open>@actions/attest\<close>, \<^verbatim>\<open>@actions/core\<close>, \<^verbatim>\<open>semver\<close>, \<^verbatim>\<open>crypto\<close>), so the embedding takes
  those collaborators as parameters (the record \<open>env\<close> below) and models the orchestrator
  itself, statement by statement, over an explicit run state.

  Strings are \<open>char list\<close>s read as UTF-8 bytes. The only string operations of the source
  (\<^verbatim>\<open>startsWith\<close>, \<^verbatim>\<open>slice\<close>, \<^verbatim>\<open>replace\<close>, concatenation) are used with ASCII patterns, on
  which UTF-8 bytes and JavaScript's UTF-16 code units behave alike; a \<^verbatim>\<open>Buffer\<close> is the
  byte sequence itself.
\<close>

type_synonym bytes = string

type_synonym date = nat

text \<open>A thrown JavaScript value: an instance of \<^verbatim>\<open>Error\<close> with its message, or anything else.\<close>

datatype thrown = Error (message: string) | NonError string

fun instanceof_Error :: "thrown \<Rightarrow> bool" where
  "instanceof_Error (Error m) = True"
| "instanceof_Error (NonError v) = False"

text \<open>\<^verbatim>\<open>cfg.PublishActionOptions\<close>: the fields \<^verbatim>\<open>main.ts\<close> reads.\<close>

record PublishActionOptions =
  nameWithOwner :: string
  workspaceDir :: string
  runnerTempDir :: string
  ref :: string
  sha :: string
  repositoryId :: string
  repositoryOwnerId :: string
  isEnterprise :: bool
  containerRegistryUrl :: string
  token :: string

text \<open>\<^verbatim>\<open>fsHelper.FileMetadata\<close> and the pair returned by \<^verbatim>\<open>fsHelper.createArchives\<close>.\<close>

record FileMetadata =
  path :: string
  sizeBytes :: nat
  sha256 :: string

record Archives =
  tarFile :: FileMetadata
  zipFile :: FileMetadata

text \<open>\<^verbatim>\<open>semver.SemVer\<close>: only \<^verbatim>\<open>raw\<close> is read.\<close>

record SemVer =
  raw :: string

text \<open>The argument object of \<^verbatim>\<open>attest.attestProvenance\<close> and the field read of its result.\<close>

record AttestOptions =
  subjectName :: string
  subjectDigest_sha256 :: string
  attest_token :: string
  sigstore :: string
  skipWrite :: bool

record 'b Attestation =
  att_bundle :: "'b"

section \<open>The collaborators\<close>

text \<open>
  \<open>'m\<close> is \<^verbatim>\<open>OCIImageManifest\<close>, \<open>'i\<close> is \<^verbatim>\<open>OCIIndexManifest\<close>, \<open>'b\<close> the bundle object of an
  attestation. A collaborator that can throw answers with \<open>thrown + 'a\<close>. Every
  effectful collaborator is called at most once per run with a given argument tuple
  (the two image-manifest uploads differ in their tag, the two temporary directories in
  their name, the two reads in the file read), so a function of the arguments stands for
  any sequence of answers.
  \<^verbatim>\<open>sha256Digest\<close> and \<^verbatim>\<open>sizeInBytes\<close> accept either kind of manifest, hence the sum type.
  \<open>clock\<close> gives the value of the n-th \<^verbatim>\<open>new Date()\<close> of the run.
\<close>

record ('m, 'i, 'b) env =
  resolvePublishActionOptions :: "thrown + PublishActionOptions"
  serializeOptions :: "PublishActionOptions \<Rightarrow> string"
  semver_parse :: "string \<Rightarrow> SemVer option"
  ensureTagAndRefCheckedOut :: "string \<Rightarrow> string \<Rightarrow> string \<Rightarrow> thrown + unit"
  createTempDir :: "string \<Rightarrow> string \<Rightarrow> thrown + string"
  stageActionFiles :: "string \<Rightarrow> string \<Rightarrow> thrown + unit"
  createArchives :: "string \<Rightarrow> string \<Rightarrow> thrown + Archives"
  readFileContents :: "string \<Rightarrow> thrown + bytes"
  createActionPackageManifest ::
    "FileMetadata \<Rightarrow> FileMetadata \<Rightarrow> string \<Rightarrow> string \<Rightarrow> string \<Rightarrow> string \<Rightarrow> string \<Rightarrow> date
       \<Rightarrow> thrown + 'm"
  createSigstoreAttestationManifest ::
    "nat \<Rightarrow> string \<Rightarrow> nat \<Rightarrow> string \<Rightarrow> date \<Rightarrow> thrown + 'm"
  createReferrerTagManifest :: "string \<Rightarrow> nat \<Rightarrow> date \<Rightarrow> thrown + 'i"
  sha256Digest :: "'m + 'i \<Rightarrow> string"
  sizeInBytes :: "'m + 'i \<Rightarrow> nat"
  emptyConfigSha :: string
  uploadOCIImageManifest ::
    "string \<Rightarrow> string \<Rightarrow> string \<Rightarrow> 'm \<Rightarrow> (string \<rightharpoonup> bytes) \<Rightarrow> string option \<Rightarrow> thrown + string"
  uploadOCIIndexManifest ::
    "string \<Rightarrow> string \<Rightarrow> string \<Rightarrow> 'i \<Rightarrow> string option \<Rightarrow> thrown + string"
  attestProvenance :: "AttestOptions \<Rightarrow> thrown + 'b Attestation"
  JSON_stringify :: "'b \<Rightarrow> string"
  crypto_sha256_hex :: "bytes \<Rightarrow> string"
  clock :: "nat \<Rightarrow> date"

section \<open>The run state\<close>

text \<open>
  What a run does to the outside: the calls it makes to effectful collaborators, in
  order and with their arguments, each with how it ended; the lines logged with
  \<^verbatim>\<open>core.info\<close>; the outputs set with \<^verbatim>\<open>core.setOutput\<close>; the messages given to
  \<^verbatim>\<open>core.setFailed\<close>.
\<close>

datatype ('m, 'i) call =
    Resolve_options
  | Ensure_checked_out string string string
  | Create_temp_dir string string
  | Stage_action_files string string
  | Create_archives string string
  | Create_action_package_manifest FileMetadata FileMetadata string string string string string date
  | Attest_provenance AttestOptions
  | Create_sigstore_attestation_manifest nat string nat string date
  | Create_referrer_tag_manifest string nat date
  | Read_file_contents string
  | Upload_image_manifest string string string 'm "string \<rightharpoonup> bytes" "string option"
  | Upload_index_manifest string string string 'i "string option"

datatype outcome = Returned | Threw thrown

record ('m, 'i) state =
  infos :: "string list"
  outputs :: "(string \<times> string) list"
  failures :: "string list"
  trace :: "(('m, 'i) call \<times> outcome) list"
  clock_reads :: nat

definition init_state :: "('m, 'i) state" where
  "init_state = \<lparr>infos = [], outputs = [], failures = [], trace = [], clock_reads = 0\<rparr>"

text \<open>
  A statement of the source is an action: it takes the state and gives back either the
  value it evaluates to or the value it throws, with the state it leaves behind.
  \<open>andThen\<close> is the sequencing of statements (and of \<^verbatim>\<open>await\<close>): a throw skips what follows.
\<close>

type_synonym ('a, 's) action = "'s \<Rightarrow> (thrown + 'a) \<times> 's"

definition andThen :: "('a, 's) action \<Rightarrow> ('a \<Rightarrow> ('c, 's) action) \<Rightarrow> ('c, 's) action" where
  "andThen f g s = (case f s of (Inl e, s') \<Rightarrow> (Inl e, s') | (Inr x, s') \<Rightarrow> g x s')"

definition return :: "'a \<Rightarrow> ('a, 's) action" where
  "return x s = (Inr x, s)"

definition throw :: "thrown \<Rightarrow> ('a, 's) action" where
  "throw e s = (Inl e, s)"

definition lift_result :: "thrown + 'a \<Rightarrow> ('a, 's) action" where
  "lift_result r s = (r, s)"

definition outcome_of :: "thrown + 'a \<Rightarrow> outcome" where
  "outcome_of r = (case r of Inl e \<Rightarrow> Threw e | Inr x \<Rightarrow> Returned)"

definition external :: "('m, 'i) call \<Rightarrow> thrown + 'a \<Rightarrow> ('a, ('m, 'i) state) action" where
  "external c r s = (r, s\<lparr>trace := trace s @ [(c, outcome_of r)]\<rparr>)"

definition core_info :: "string \<Rightarrow> (unit, ('m, 'i) state) action" where
  "core_info msg s = (Inr (), s\<lparr>infos := infos s @ [msg]\<rparr>)"

definition core_setOutput :: "string \<Rightarrow> string \<Rightarrow> (unit, ('m, 'i) state) action" where
  "core_setOutput name v s = (Inr (), s\<lparr>outputs := outputs s @ [(name, v)]\<rparr>)"

definition core_setFailed :: "string \<Rightarrow> (unit, ('m, 'i) state) action" where
  "core_setFailed msg s = (Inr (), s\<lparr>failures := failures s @ [msg]\<rparr>)"

definition new_Date :: "('m, 'i, 'b) env \<Rightarrow> (date, ('m, 'i) state) action" where
  "new_Date env s = (Inr (clock env (clock_reads s)), s\<lparr>clock_reads := Suc (clock_reads s)\<rparr>)"

subsection \<open>Calls to the effectful collaborators, recorded in the trace\<close>

definition cfg_resolvePublishActionOptions ::
  "('m, 'i, 'b) env \<Rightarrow> (PublishActionOptions, ('m, 'i) state) action" where
  "cfg_resolvePublishActionOptions env = external Resolve_options (resolvePublishActionOptions env)"

definition fsHelper_ensureTagAndRefCheckedOut ::
  "('m, 'i, 'b) env \<Rightarrow> string \<Rightarrow> string \<Rightarrow> string \<Rightarrow> (unit, ('m, 'i) state) action" where
  "fsHelper_ensureTagAndRefCheckedOut env r c w =
     external (Ensure_checked_out r c w) (ensureTagAndRefCheckedOut env r c w)"

definition fsHelper_createTempDir ::
  "('m, 'i, 'b) env \<Rightarrow> string \<Rightarrow> string \<Rightarrow> (string, ('m, 'i) state) action" where
  "fsHelper_createTempDir env d n = external (Create_temp_dir d n) (createTempDir env d n)"

definition fsHelper_stageActionFiles ::
  "('m, 'i, 'b) env \<Rightarrow> string \<Rightarrow> string \<Rightarrow> (unit, ('m, 'i) state) action" where
  "fsHelper_stageActionFiles env w d = external (Stage_action_files w d) (stageActionFiles env w d)"

definition fsHelper_createArchives ::
  "('m, 'i, 'b) env \<Rightarrow> string \<Rightarrow> string \<Rightarrow> (Archives, ('m, 'i) state) action" where
  "fsHelper_createArchives env d a = external (Create_archives d a) (createArchives env d a)"

definition fsHelper_readFileContents ::
  "('m, 'i, 'b) env \<Rightarrow> string \<Rightarrow> (bytes, ('m, 'i) state) action" where
  "fsHelper_readFileContents env p = external (Read_file_contents p) (readFileContents env p)"

definition ociContainer_createActionPackageManifest ::
  "('m, 'i, 'b) env \<Rightarrow> FileMetadata \<Rightarrow> FileMetadata \<Rightarrow> string \<Rightarrow> string \<Rightarrow> string \<Rightarrow> string
     \<Rightarrow> string \<Rightarrow> date \<Rightarrow> ('m, ('m, 'i) state) action" where
  "ociContainer_createActionPackageManifest env t z n rid oid c v d =
     external (Create_action_package_manifest t z n rid oid c v d)
       (createActionPackageManifest env t z n rid oid c v d)"

definition ociContainer_createSigstoreAttestationManifest ::
  "('m, 'i, 'b) env \<Rightarrow> nat \<Rightarrow> string \<Rightarrow> nat \<Rightarrow> string \<Rightarrow> date \<Rightarrow> ('m, ('m, 'i) state) action" where
  "ociContainer_createSigstoreAttestationManifest env bs bd ss sd d =
     external (Create_sigstore_attestation_manifest bs bd ss sd d)
       (createSigstoreAttestationManifest env bs bd ss sd d)"

definition ociContainer_createReferrerTagManifest ::
  "('m, 'i, 'b) env \<Rightarrow> string \<Rightarrow> nat \<Rightarrow> date \<Rightarrow> ('i, ('m, 'i) state) action" where
  "ociContainer_createReferrerTagManifest env ad as d =
     external (Create_referrer_tag_manifest ad as d) (createReferrerTagManifest env ad as d)"

definition ghcr_uploadOCIImageManifest ::
  "('m, 'i, 'b) env \<Rightarrow> string \<Rightarrow> string \<Rightarrow> string \<Rightarrow> 'm \<Rightarrow> (string \<rightharpoonup> bytes) \<Rightarrow> string option
     \<Rightarrow> (string, ('m, 'i) state) action" where
  "ghcr_uploadOCIImageManifest env t u n m files tg =
     external (Upload_image_manifest t u n m files tg) (uploadOCIImageManifest env t u n m files tg)"

definition ghcr_uploadOCIIndexManifest ::
  "('m, 'i, 'b) env \<Rightarrow> string \<Rightarrow> string \<Rightarrow> string \<Rightarrow> 'i \<Rightarrow> string option
     \<Rightarrow> (string, ('m, 'i) state) action" where
  "ghcr_uploadOCIIndexManifest env t u n i tg =
     external (Upload_index_manifest t u n i tg) (uploadOCIIndexManifest env t u n i tg)"

definition attest_attestProvenance ::
  "('m, 'i, 'b) env \<Rightarrow> AttestOptions \<Rightarrow> ('b Attestation, ('m, 'i) state) action" where
  "attest_attestProvenance env a = external (Attest_provenance a) (attestProvenance env a)"

section \<open>String helpers of JavaScript used by the source\<close>

definition startsWith :: "string \<Rightarrow> string \<Rightarrow> bool" where
  "startsWith str prefix = (take (length prefix) str = prefix)"

definition slice :: "string \<Rightarrow> nat \<Rightarrow> string" where
  "slice str n = drop n str"

text \<open>\<^verbatim>\<open>str.replace(c, r)\<close> with a one-character string pattern: the first occurrence only.\<close>

fun replace_first :: "char \<Rightarrow> string \<Rightarrow> string \<Rightarrow> string" where
  "replace_first c r [] = []"
| "replace_first c r (x # xs) = (if x = c then r @ xs else x # replace_first c r xs)"

text \<open>\<^verbatim>\<open>str.replace(/^p/, '')\<close> for a literal \<open>p\<close>: the pattern is anchored at the start.\<close>

definition replace_leading :: "string \<Rightarrow> string \<Rightarrow> string" where
  "replace_leading p str = (if startsWith str p then drop (length p) str else str)"

definition Buffer_from :: "string \<Rightarrow> bytes" where
  "Buffer_from str = str"

text \<open>
  Line 150 interpolates \<^verbatim>\<open>${semver}\<close>, the imported module object, not the tag: the
  logged text is that of an object.
\<close>

definition semver_module_text :: string where
  "semver_module_text = ''[object Object]''"

section \<open>The template literals of the source\<close>

text \<open>Each logged line and each error message of \<^verbatim>\<open>main.ts\<close>, as a function of what it interpolates.\<close>

definition msg_publishing_with_options :: string where
  "msg_publishing_with_options = ''Publishing action package version with options:''"

definition msg_creating_package :: "string \<Rightarrow> string" where
  "msg_creating_package manifestDigest =
     ''Creating GHCR package '' @ manifestDigest @ '' for release with semver: '' @
     semver_module_text @ ''.''"

definition msg_publishing_attestation :: "string \<Rightarrow> string \<Rightarrow> string" where
  "msg_publishing_attestation attestationManifestDigest subjectManifestDigest =
     ''Publishing attestation '' @ attestationManifestDigest @ '' for subject '' @
     subjectManifestDigest @ ''.''"

definition msg_publishing_referrer_index :: "string \<Rightarrow> string \<Rightarrow> string \<Rightarrow> string \<Rightarrow> string" where
  "msg_publishing_referrer_index referrerIndexManifestDigest referrerTag attestationManifestDigest
       subjectManifestDigest =
     ''Publishing referrer index '' @ referrerIndexManifestDigest @ '' with tag '' @ referrerTag @
     '' for attestation '' @ attestationManifestDigest @ '' and subject '' @
     subjectManifestDigest @ ''.''"

definition msg_generating_attestation :: "string \<Rightarrow> string \<Rightarrow> string" where
  "msg_generating_attestation subjName subjDigest =
     ''Generating attestation '' @ subjName @ '' for digest '' @ subjDigest"

definition msg_uploaded_attestation :: "string \<Rightarrow> string" where
  "msg_uploaded_attestation attestationSHA = ''Uploaded attestation '' @ attestationSHA"

definition msg_uploaded_referrer_index :: "string \<Rightarrow> string" where
  "msg_uploaded_referrer_index referrerIndexSHA = ''Uploaded referrer index '' @ referrerIndexSHA"

definition err_not_a_tag_ref :: "string \<Rightarrow> string" where
  "err_not_a_tag_ref r = ''The ref '' @ r @ '' is not a valid tag reference.''"

definition err_not_a_semver_tag :: "string \<Rightarrow> string" where
  "err_not_a_semver_tag rawTag =
     rawTag @
     '' is not a valid semantic version tag, and so cannot be uploaded to the action package.''"

definition err_unexpected_digest :: "string \<Rightarrow> string \<Rightarrow> string" where
  "err_unexpected_digest manifestDigest publishedDigest =
     ''Unexpected digest returned for manifest. Expected '' @ manifestDigest @ '', got '' @
     publishedDigest"

section \<open>The functions of \<^verbatim>\<open>main.ts\<close>\<close>

text \<open>\<^verbatim>\<open>removePrefix\<close>, lines 250-255.\<close>

definition removePrefix :: "string \<Rightarrow> string \<Rightarrow> string" where
  "removePrefix str prefix = (if startsWith str prefix then slice str (length prefix) else str)"

text \<open>\<^verbatim>\<open>parseSemverTagFromRef\<close>, lines 122-138.\<close>

definition parseSemverTagFromRef :: "('m, 'i, 'b) env \<Rightarrow> PublishActionOptions \<Rightarrow> thrown + SemVer" where
  "parseSemverTagFromRef env opts =
     (let r = ref opts in
      if \<not> startsWith r ''refs/tags/''
      then Inl (Error (err_not_a_tag_ref r))
      else
        let rawTag = replace_leading ''refs/tags/'' r in
        case semver_parse env (replace_leading ''v'' rawTag) of
          None \<Rightarrow> Inl (Error (err_not_a_semver_tag rawTag))
        | Some semverTag \<Rightarrow> Inr semverTag)"

text \<open>\<^verbatim>\<open>publishImmutableActionVersion\<close>, lines 140-166.\<close>

definition publishImmutableActionVersion ::
  "('m, 'i, 'b) env \<Rightarrow> PublishActionOptions \<Rightarrow> string \<Rightarrow> FileMetadata \<Rightarrow> FileMetadata \<Rightarrow> 'm
     \<Rightarrow> (string, ('m, 'i) state) action" where
  "publishImmutableActionVersion env options semverTag zipF tarF manifest =
     (let manifestDigest = sha256Digest env (Inl manifest) in
      andThen (core_info (msg_creating_package manifestDigest)) (\<lambda>_.
      andThen (fsHelper_readFileContents env (path zipF)) (\<lambda>zipContents.
      andThen (fsHelper_readFileContents env (path tarF)) (\<lambda>tarContents.
      let files = [sha256 zipF \<mapsto> zipContents, sha256 tarF \<mapsto> tarContents,
                   emptyConfigSha env \<mapsto> Buffer_from ''{}''] in
      ghcr_uploadOCIImageManifest env (token options) (containerRegistryUrl options)
        (nameWithOwner options) manifest files (Some semverTag)))))"

text \<open>\<^verbatim>\<open>publishAttestation\<close>, lines 168-218.\<close>

definition publishAttestation ::
  "('m, 'i, 'b) env \<Rightarrow> PublishActionOptions \<Rightarrow> bytes \<Rightarrow> string \<Rightarrow> 'm \<Rightarrow> 'm \<Rightarrow> 'i
     \<Rightarrow> (string \<times> string, ('m, 'i) state) action" where
  "publishAttestation env options bundleB bundleDigest subjectManifest attestationManifest
       referrerIndexManifest =
     (let attestationManifestDigest = sha256Digest env (Inl attestationManifest);
          subjectManifestDigest = sha256Digest env (Inl subjectManifest);
          referrerIndexManifestDigest = sha256Digest env (Inr referrerIndexManifest) in
      andThen (core_info (msg_publishing_attestation attestationManifestDigest
                 subjectManifestDigest)) (\<lambda>_.
      let files = [emptyConfigSha env \<mapsto> Buffer_from ''{}'', bundleDigest \<mapsto> bundleB] in
      andThen (ghcr_uploadOCIImageManifest env (token options) (containerRegistryUrl options)
                 (nameWithOwner options) attestationManifest files None) (\<lambda>attestationSHA.
      let referrerTag = replace_first CHR '':'' ''-'' subjectManifestDigest in
      andThen (core_info (msg_publishing_referrer_index referrerIndexManifestDigest referrerTag
                 attestationManifestDigest subjectManifestDigest)) (\<lambda>_.
      andThen (ghcr_uploadOCIIndexManifest env (token options) (containerRegistryUrl options)
                 (nameWithOwner options) referrerIndexManifest (Some referrerTag)) (\<lambda>referrerIndexSHA.
      return (attestationSHA, referrerIndexSHA))))))"

text \<open>\<^verbatim>\<open>generateAttestation\<close>, lines 220-248.\<close>

definition generateAttestation ::
  "('m, 'i, 'b) env \<Rightarrow> string \<Rightarrow> string \<Rightarrow> PublishActionOptions
     \<Rightarrow> (bytes \<times> string, ('m, 'i) state) action" where
  "generateAttestation env manifestDigest semverTag options =
     (let subjectName' = nameWithOwner options @ ''@'' @ semverTag;
          subjectDigest = removePrefix manifestDigest ''sha256:'' in
      andThen (core_info (msg_generating_attestation subjectName' subjectDigest)) (\<lambda>_.
      andThen (attest_attestProvenance env
                 \<lparr>subjectName = subjectName', subjectDigest_sha256 = subjectDigest,
                  attest_token = token options, sigstore = ''github'', skipWrite = True\<rparr>)
        (\<lambda>attestation.
      let bundleArtifact = Buffer_from (JSON_stringify env (att_bundle attestation));
          bundleSHA = crypto_sha256_hex env bundleArtifact in
      return (bundleArtifact, ''sha256:'' @ bundleSHA))))"

text \<open>
  The body of the \<^verbatim>\<open>try\<close> block of \<^verbatim>\<open>run\<close>, lines 16-112. The guards of lines 88 and 92
  compare a value of type \<^verbatim>\<open>string\<close> with \<^verbatim>\<open>undefined\<close> and always pass.
\<close>

definition run_try :: "('m, 'i, 'b) env \<Rightarrow> (unit, ('m, 'i) state) action" where
  "run_try env =
     andThen (cfg_resolvePublishActionOptions env) (\<lambda>options.
     andThen (core_info msg_publishing_with_options) (\<lambda>_.
     andThen (core_info (serializeOptions env options)) (\<lambda>_.
     andThen (lift_result (parseSemverTagFromRef env options)) (\<lambda>semverTag.
     andThen (fsHelper_ensureTagAndRefCheckedOut env (ref options) (sha options)
                (workspaceDir options)) (\<lambda>_.
     andThen (fsHelper_createTempDir env (runnerTempDir options) ''staging'') (\<lambda>stagedActionFilesDir.
     andThen (fsHelper_stageActionFiles env (workspaceDir options) stagedActionFilesDir) (\<lambda>_.
     andThen (fsHelper_createTempDir env (runnerTempDir options) ''archives'') (\<lambda>archiveDir.
     andThen (fsHelper_createArchives env stagedActionFilesDir archiveDir) (\<lambda>archives.
     andThen (new_Date env) (\<lambda>created.
     andThen (ociContainer_createActionPackageManifest env (tarFile archives) (zipFile archives)
                (nameWithOwner options) (repositoryId options) (repositoryOwnerId options)
                (sha options) (raw semverTag) created) (\<lambda>manifest.
     let manifestDigest = sha256Digest env (Inl manifest) in
     andThen
       (if \<not> isEnterprise options then
          andThen (generateAttestation env manifestDigest (raw semverTag) options)
            (\<lambda>(bundleB, bundleDigest).
          andThen (new_Date env) (\<lambda>attestationCreated.
          andThen (ociContainer_createSigstoreAttestationManifest env (length bundleB) bundleDigest
                     (sizeInBytes env (Inl manifest)) manifestDigest attestationCreated)
            (\<lambda>attestationManifest.
          andThen (ociContainer_createReferrerTagManifest env
                     (sha256Digest env (Inl attestationManifest))
                     (sizeInBytes env (Inl attestationManifest)) attestationCreated)
            (\<lambda>referrerIndexManifest.
          andThen (publishAttestation env options bundleB bundleDigest manifest attestationManifest
                     referrerIndexManifest) (\<lambda>(attestationSHA, referrerIndexSHA).
          andThen (core_info (msg_uploaded_attestation attestationSHA)) (\<lambda>_.
          andThen (core_setOutput ''attestation-manifest-sha'' attestationSHA) (\<lambda>_.
          andThen (core_info (msg_uploaded_referrer_index referrerIndexSHA)) (\<lambda>_.
          core_setOutput ''referrer-index-manifest-sha'' referrerIndexSHA))))))))
        else return ()) (\<lambda>_.
     andThen (publishImmutableActionVersion env options (raw semverTag) (zipFile archives)
                (tarFile archives) manifest) (\<lambda>publishedDigest.
     andThen (if manifestDigest \<noteq> publishedDigest
              then throw (Error (err_unexpected_digest manifestDigest publishedDigest))
              else return ()) (\<lambda>_.
     core_setOutput ''package-manifest-sha'' publishedDigest))))))))))))))"

text \<open>
  \<^verbatim>\<open>run\<close>, lines 14-117: the \<^verbatim>\<open>catch\<close> clause reports a thrown \<^verbatim>\<open>Error\<close> with
  \<^verbatim>\<open>core.setFailed\<close> and drops any other thrown value; either way \<^verbatim>\<open>run\<close> returns.
\<close>

definition run :: "('m, 'i, 'b) env \<Rightarrow> (unit, ('m, 'i) state) action" where
  "run env s =
     (case run_try env s of
        (Inr u, s') \<Rightarrow> (Inr u, s')
      | (Inl error, s') \<Rightarrow>
          (if instanceof_Error error then core_setFailed (message error) s' else (Inr (), s')))"

text \<open>The state a run leaves behind when started from nothing.\<close>

definition final :: "('m, 'i, 'b) env \<Rightarrow> ('m, 'i) state" where
  "final env = snd (run env init_state)"

section \<open>Reading a trace\<close>

text \<open>
  The calls of the attestation branch (lines 57-96): the signing request, the two
  builders, the upload of the attestation manifest (the only image-manifest upload
  without a tag) and the upload of the referrer index.
\<close>

fun is_attestation_call :: "('m, 'i) call \<Rightarrow> bool" where
  "is_attestation_call (Attest_provenance a) = True"
| "is_attestation_call (Create_sigstore_attestation_manifest bs bd ss sd d) = True"
| "is_attestation_call (Create_referrer_tag_manifest ad as d) = True"
| "is_attestation_call (Upload_image_manifest t u n m files tg) = (tg = None)"
| "is_attestation_call (Upload_index_manifest t u n i tg) = True"
| "is_attestation_call c = False"

text \<open>The upload of the subject (package) manifest: the image-manifest upload with a tag.\<close>

fun is_subject_upload :: "('m, 'i) call \<Rightarrow> bool" where
  "is_subject_upload (Upload_image_manifest t u n m files tg) = (tg \<noteq> None)"
| "is_subject_upload c = False"

text \<open>The calls of the subject publishing stage (lines 98-104): reading the archives, the upload.\<close>

fun is_subject_stage_call :: "('m, 'i) call \<Rightarrow> bool" where
  "is_subject_stage_call (Read_file_contents p) = True"
| "is_subject_stage_call (Upload_image_manifest t u n m files tg) = (tg \<noteq> None)"
| "is_subject_stage_call c = False"

fun is_upload :: "('m, 'i) call \<Rightarrow> bool" where
  "is_upload (Upload_image_manifest t u n m files tg) = True"
| "is_upload (Upload_index_manifest t u n i tg) = True"
| "is_upload c = False"

fun is_package_manifest_construction :: "('m, 'i) call \<Rightarrow> bool" where
  "is_package_manifest_construction (Create_action_package_manifest t z n rid oid c v d) = True"
| "is_package_manifest_construction c = False"

definition hex_digit :: "char \<Rightarrow> bool" where
  "hex_digit c = (c \<in> set ''0123456789abcdefABCDEF'')"

section \<open>Reasoning about actions\<close>

text \<open>
  \<open>wp f Q E s\<close>: running \<open>f\<close> from \<open>s\<close> ends in a state satisfying \<open>Q\<close> with the value
  returned, or \<open>E\<close> with the value thrown. \<open>catch_state\<close> is the effect of the
  \<^verbatim>\<open>catch\<close> clause of \<^verbatim>\<open>run\<close>.
\<close>

definition wp ::
  "('a, 's) action \<Rightarrow> ('a \<Rightarrow> 's \<Rightarrow> bool) \<Rightarrow> (thrown \<Rightarrow> 's \<Rightarrow> bool) \<Rightarrow> 's \<Rightarrow> bool" where
  "wp f Q E s = (case f s of (Inl e, s') \<Rightarrow> E e s' | (Inr x, s') \<Rightarrow> Q x s')"

definition catch_state :: "thrown \<Rightarrow> ('m, 'i) state \<Rightarrow> ('m, 'i) state" where
  "catch_state e s = (if instanceof_Error e then s\<lparr>failures := failures s @ [message e]\<rparr> else s)"

section \<open>A concrete run\<close>

text \<open>
  Collaborators that all succeed, with an honest registry: a manifest is the hex text
  of its own digest, and the registry answers an upload with the digest it was sent.
\<close>

definition demo_options :: PublishActionOptions where
  "demo_options =
     \<lparr>nameWithOwner = ''o/r'', workspaceDir = ''/w'', runnerTempDir = ''/t'',
      ref = ''refs/tags/v1.2.3'', sha = ''c0'', repositoryId = ''1'', repositoryOwnerId = ''2'',
      isEnterprise = False, containerRegistryUrl = ''ghcr.io'', token = ''tk''\<rparr>"

definition demo_archives :: Archives where
  "demo_archives =
     \<lparr>tarFile = \<lparr>path = ''/a.tar'', sizeBytes = 3, sha256 = ''sha256:01''\<rparr>,
      zipFile = \<lparr>path = ''/a.zip'', sizeBytes = 3, sha256 = ''sha256:02''\<rparr>\<rparr>"

definition demo_digest :: "string + string \<Rightarrow> string" where
  "demo_digest x = ''sha256:'' @ (case x of Inl m \<Rightarrow> m | Inr i \<Rightarrow> i)"

definition demo_env :: "(string, string, string) env" where
  "demo_env =
     \<lparr>resolvePublishActionOptions = Inr demo_options,
      serializeOptions = (\<lambda>opts. ''options''),
      semver_parse = (\<lambda>v. if v = ''1.2.3'' then Some \<lparr>raw = v\<rparr> else None),
      ensureTagAndRefCheckedOut = (\<lambda>r c w. Inr ()),
      createTempDir = (\<lambda>d n. Inr (d @ ''/'' @ n)),
      stageActionFiles = (\<lambda>w d. Inr ()),
      createArchives = (\<lambda>d a. Inr demo_archives),
      readFileContents = (\<lambda>p. Inr (''data:'' @ p)),
      createActionPackageManifest = (\<lambda>t z n rid oid c v d. Inr ''aa''),
      createSigstoreAttestationManifest = (\<lambda>bs bd ss sd d. Inr ''bb''),
      createReferrerTagManifest = (\<lambda>ad as d. Inr ''cc''),
      sha256Digest = demo_digest,
      sizeInBytes = (\<lambda>x. 2),
      emptyConfigSha = ''sha256:44'',
      uploadOCIImageManifest = (\<lambda>t u n m files tg. Inr (demo_digest (Inl m))),
      uploadOCIIndexManifest = (\<lambda>t u n i tg. Inr (demo_digest (Inr i))),
      attestProvenance = (\<lambda>a. Inr \<lparr>att_bundle = ''{sig}''\<rparr>),
      JSON_stringify = (\<lambda>b. b),
      crypto_sha256_hex = (\<lambda>b. ''dd''),
      clock = (\<lambda>n. n)\<rparr>"

text \<open>The same run against an enterprise server.\<close>

definition demo_env_enterprise :: "(string, string, string) env" where
  "demo_env_enterprise =
     demo_env\<lparr>resolvePublishActionOptions := Inr (demo_options\<lparr>isEnterprise := True\<rparr>)\<rparr>"

text \<open>A registry that answers the upload of the subject manifest with a foreign digest.\<close>

definition demo_env_subject_mismatch :: "(string, string, string) env" where
  "demo_env_subject_mismatch =
     demo_env\<lparr>uploadOCIImageManifest :=
       (\<lambda>t u n m files tg. Inr (if tg = None then demo_digest (Inl m) else ''sha256:ff''))\<rparr>"

text \<open>
  A registry that answers the uploads of the attestation manifest and of the referrer
  index with foreign digests, and the upload of the subject manifest honestly.
\<close>

definition demo_env_attestation_mismatch :: "(string, string, string) env" where
  "demo_env_attestation_mismatch =
     demo_env\<lparr>uploadOCIImageManifest :=
       (\<lambda>t u n m files tg. Inr (if tg = None then ''sha256:ee'' else demo_digest (Inl m))),
       uploadOCIIndexManifest := (\<lambda>t u n i tg. Inr ''sha256:ff'')\<rparr>"

text \<open>A signing service that fails.\<close>

definition demo_env_signing_fails :: "(string, string, string) env" where
  "demo_env_signing_fails = demo_env\<lparr>attestProvenance := (\<lambda>a. Inl (Error ''signing failed''))\<rparr>"

text \<open>A signing service that throws a value that is no \<^verbatim>\<open>Error\<close>.\<close>

definition demo_env_signing_rejects :: "(string, string, string) env" where
  "demo_env_signing_rejects = demo_env\<lparr>attestProvenance := (\<lambda>a. Inl (NonError ''timeout''))\<rparr>"

text \<open>
  A registry client that throws a value that is no \<^verbatim>\<open>Error\<close> when the subject manifest is
  uploaded, after the attestation branch has completed.
\<close>

definition demo_env_subject_throws :: "(string, string, string) env" where
  "demo_env_subject_throws =
     demo_env\<lparr>uploadOCIImageManifest :=
       (\<lambda>t u n m files tg. if tg = None then Inr (demo_digest (Inl m)) else Inl (NonError ''503''))\<rparr>"

text \<open>A ref that is no tag, and a tag that is no semantic version.\<close>

definition demo_env_branch_ref :: "(string, string, string) env" where
  "demo_env_branch_ref =
     demo_env\<lparr>resolvePublishActionOptions := Inr (demo_options\<lparr>ref := ''refs/heads/main''\<rparr>)\<rparr>"

text \<open>A tag that is no semantic version.\<close>

definition demo_env_bad_tag :: "(string, string, string) env" where
  "demo_env_bad_tag =
     demo_env\<lparr>resolvePublishActionOptions := Inr (demo_options\<lparr>ref := ''refs/tags/latest''\<rparr>)\<rparr>"

text \<open>What the concrete runs do, stage by stage.\<close>

definition demo_subject_files :: "string \<rightharpoonup> bytes" where
  "demo_subject_files =
     [''sha256:02'' \<mapsto> ''data:/a.zip'', ''sha256:01'' \<mapsto> ''data:/a.tar'', ''sha256:44'' \<mapsto> ''{}'']"

definition demo_attestation_files :: "string \<rightharpoonup> bytes" where
  "demo_attestation_files = [''sha256:44'' \<mapsto> ''{}'', ''sha256:dd'' \<mapsto> ''{sig}'']"

definition demo_attest_options :: AttestOptions where
  "demo_attest_options =
     \<lparr>subjectName = ''o/r@1.2.3'', subjectDigest_sha256 = ''aa'', attest_token = ''tk'',
      sigstore = ''github'', skipWrite = True\<rparr>"

definition demo_attestation_upload :: "(string, string) call" where
  "demo_attestation_upload =
     Upload_image_manifest ''tk'' ''ghcr.io'' ''o/r'' ''bb'' demo_attestation_files None"

definition demo_index_upload :: "(string, string) call" where
  "demo_index_upload = Upload_index_manifest ''tk'' ''ghcr.io'' ''o/r'' ''cc'' (Some ''sha256-aa'')"

definition demo_subject_upload :: "(string, string) call" where
  "demo_subject_upload =
     Upload_image_manifest ''tk'' ''ghcr.io'' ''o/r'' ''aa'' demo_subject_files (Some ''1.2.3'')"

definition demo_preparation :: "((string, string) call \<times> outcome) list" where
  "demo_preparation =
     [(Resolve_options, Returned),
      (Ensure_checked_out ''refs/tags/v1.2.3'' ''c0'' ''/w'', Returned),
      (Create_temp_dir ''/t'' ''staging'', Returned),
      (Stage_action_files ''/w'' ''/t/staging'', Returned),
      (Create_temp_dir ''/t'' ''archives'', Returned),
      (Create_archives ''/t/staging'' ''/t/archives'', Returned),
      (Create_action_package_manifest (tarFile demo_archives) (zipFile demo_archives)
         ''o/r'' ''1'' ''2'' ''c0'' ''1.2.3'' 0, Returned)]"

definition demo_attestation :: "((string, string) call \<times> outcome) list" where
  "demo_attestation =
     [(Attest_provenance demo_attest_options, Returned),
      (Create_sigstore_attestation_manifest 5 ''sha256:dd'' 2 ''sha256:aa'' 1, Returned),
      (Create_referrer_tag_manifest ''sha256:bb'' 2 1, Returned),
      (demo_attestation_upload, Returned),
      (demo_index_upload, Returned)]"

definition demo_reads :: "((string, string) call \<times> outcome) list" where
  "demo_reads = [(Read_file_contents ''/a.zip'', Returned), (Read_file_contents ''/a.tar'', Returned)]"

section \<open>The calculus of actions\<close>

lemma wp_andThen: "wp (andThen f g) Q E = wp f (\<lambda>x. wp (g x) Q E) E"
  by (rule ext) (simp add: wp_def andThen_def split: prod.splits sum.splits)

text \<open>
  One rule per kind of statement. The rules write a state update as the update of one
  field, so that the state reached after n statements is a term of size n.
\<close>

lemma wpI_andThen: "wp f (\<lambda>x. wp (g x) Q E) E s \<Longrightarrow> wp (andThen f g) Q E s"
  by (simp add: wp_andThen)

lemma wpI_external:
  "(\<And>e. r = Inl e \<Longrightarrow> E e (trace_update (\<lambda>t. t @ [(c, Threw e)]) s)) \<Longrightarrow>
   (\<And>x. r = Inr x \<Longrightarrow> Q x (trace_update (\<lambda>t. t @ [(c, Returned)]) s)) \<Longrightarrow>
   wp (external c r) Q E s"
  by (cases s) (simp add: wp_def external_def outcome_of_def split: sum.splits)

lemma wpI_lift_result:
  "(\<And>e. r = Inl e \<Longrightarrow> E e s) \<Longrightarrow> (\<And>x. r = Inr x \<Longrightarrow> Q x s) \<Longrightarrow> wp (lift_result r) Q E s"
  by (simp add: wp_def lift_result_def split: sum.splits)

lemma wpI_core_info: "Q () (infos_update (\<lambda>l. l @ [m]) s) \<Longrightarrow> wp (core_info m) Q E s"
  by (cases s) (simp add: wp_def core_info_def)

lemma wpI_core_setOutput:
  "Q () (outputs_update (\<lambda>l. l @ [(n, v)]) s) \<Longrightarrow> wp (core_setOutput n v) Q E s"
  by (cases s) (simp add: wp_def core_setOutput_def)

lemma wpI_new_Date:
  "Q (clock env (clock_reads s)) (clock_reads_update Suc s) \<Longrightarrow> wp (new_Date env) Q E s"
  by (cases s) (simp add: wp_def new_Date_def)

lemma wpI_return: "Q x s \<Longrightarrow> wp (return x) Q E s"
  by (simp add: wp_def return_def)

lemma wpI_throw: "E e s \<Longrightarrow> wp (throw e) Q E s"
  by (simp add: wp_def throw_def)

lemma wpI_if:
  "(b \<Longrightarrow> wp f Q E s) \<Longrightarrow> (\<not> b \<Longrightarrow> wp g Q E s) \<Longrightarrow> wp (if b then f else g) Q E s"
  by simp

lemma wpI_case_prod: "wp (f a b) Q E s \<Longrightarrow> wp (case (a, b) of (x, y) \<Rightarrow> f x y) Q E s"
  by simp

lemmas wp_intros = wpI_andThen wpI_external wpI_lift_result wpI_core_info wpI_core_setOutput
  wpI_new_Date wpI_return wpI_throw wpI_if wpI_case_prod

lemmas run_unfold = run_try_def generateAttestation_def publishAttestation_def
  publishImmutableActionVersion_def cfg_resolvePublishActionOptions_def
  fsHelper_ensureTagAndRefCheckedOut_def fsHelper_createTempDir_def fsHelper_stageActionFiles_def
  fsHelper_createArchives_def fsHelper_readFileContents_def
  ociContainer_createActionPackageManifest_def ociContainer_createSigstoreAttestationManifest_def
  ociContainer_createReferrerTagManifest_def ghcr_uploadOCIImageManifest_def
  ghcr_uploadOCIIndexManifest_def attest_attestProvenance_def Let_def

text \<open>
  A property of the state \<^verbatim>\<open>run\<close> leaves behind, read off the body of its \<^verbatim>\<open>try\<close>
  block; and a property of what an action returns and leaves behind.
\<close>

lemma final_wpI:
  "wp (run_try env) (\<lambda>u. P) (\<lambda>e s. P (catch_state e s)) init_state \<Longrightarrow> P (final env)"
  by (auto simp: final_def run_def wp_def catch_state_def core_setFailed_def
      split: prod.splits sum.splits)

lemma action_wpI: "wp f (\<lambda>x s'. P (Inr x, s')) (\<lambda>e s'. P (Inl e, s')) s \<Longrightarrow> P (f s)"
  by (simp add: wp_def split: prod.splits sum.splits)

section \<open>Facts about the string helpers\<close>

lemma startsWith_append: "startsWith (p @ t) p"
  by (simp add: startsWith_def)

lemma replace_leading_append: "replace_leading p (p @ t) = t"
  by (simp add: replace_leading_def startsWith_def)

lemma removePrefix_present: "removePrefix (p @ t) p = t"
  by (simp add: removePrefix_def slice_def startsWith_def)

lemma hex_digit_not_colon: "hex_digit c \<Longrightarrow> c \<noteq> CHR '':''"
  by (auto simp: hex_digit_def)

section \<open>The concrete runs, evaluated\<close>

lemma demo_env_fields:
  "resolvePublishActionOptions demo_env = Inr demo_options"
  "serializeOptions demo_env opts = ''options''"
  "semver_parse demo_env v = (if v = ''1.2.3'' then Some \<lparr>raw = v\<rparr> else None)"
  "ensureTagAndRefCheckedOut demo_env r c w = Inr ()"
  "createTempDir demo_env d n = Inr (d @ ''/'' @ n)"
  "stageActionFiles demo_env w d = Inr ()"
  "createArchives demo_env d a = Inr demo_archives"
  "readFileContents demo_env p = Inr (''data:'' @ p)"
  "createActionPackageManifest demo_env t z nm rid oid c v dt = Inr ''aa''"
  "createSigstoreAttestationManifest demo_env bs bd ss sd dt = Inr ''bb''"
  "createReferrerTagManifest demo_env ad as dt = Inr ''cc''"
  "sha256Digest demo_env x = demo_digest x"
  "sizeInBytes demo_env x = 2"
  "emptyConfigSha demo_env = ''sha256:44''"
  "uploadOCIImageManifest demo_env t' u' n' m files tg = Inr (demo_digest (Inl m))"
  "uploadOCIIndexManifest demo_env t' u' n' i tg = Inr (demo_digest (Inr i))"
  "attestProvenance demo_env ao = Inr \<lparr>att_bundle = ''{sig}''\<rparr>"
  "JSON_stringify demo_env b = b"
  "crypto_sha256_hex demo_env b = ''dd''"
  "clock demo_env k = k"
  by (simp_all add: demo_env_def)

lemmas demo_defs = demo_env_fields demo_env_enterprise_def demo_env_subject_mismatch_def
  demo_env_attestation_mismatch_def demo_env_signing_fails_def demo_env_signing_rejects_def
  demo_env_subject_throws_def demo_env_branch_ref_def demo_env_bad_tag_def demo_options_def demo_archives_def demo_digest_def
  demo_subject_files_def demo_attestation_files_def demo_attest_options_def
  demo_attestation_upload_def demo_index_upload_def demo_subject_upload_def demo_preparation_def
  demo_attestation_def demo_reads_def

lemmas eval_defs = init_state_def catch_state_def parseSemverTagFromRef_def startsWith_def
  replace_leading_def removePrefix_def slice_def Buffer_from_def err_unexpected_digest_def
  err_not_a_tag_ref_def err_not_a_semver_tag_def Let_def

lemma demo_run:
  "trace (final demo_env) = demo_preparation @ demo_attestation @ demo_reads @ [(demo_subject_upload, Returned)] \<and>
   outputs (final demo_env) =
     [(''attestation-manifest-sha'', ''sha256:bb''), (''referrer-index-manifest-sha'', ''sha256:cc''),
      (''package-manifest-sha'', ''sha256:aa'')] \<and>
   failures (final demo_env) = []"
  (is "?P (final demo_env)")
  apply (rule final_wpI [where P = "?P"])
  unfolding run_unfold
  apply (intro wp_intros)
  apply (auto simp: demo_defs eval_defs)
  done

lemma demo_run_enterprise:
  "trace (final demo_env_enterprise) = demo_preparation @ demo_reads @ [(demo_subject_upload, Returned)] \<and>
   outputs (final demo_env_enterprise) = [(''package-manifest-sha'', ''sha256:aa'')] \<and>
   failures (final demo_env_enterprise) = []"
  (is "?P (final demo_env_enterprise)")
  apply (rule final_wpI [where P = "?P"])
  unfolding run_unfold
  apply (intro wp_intros)
  apply (auto simp: demo_defs eval_defs)
  done

lemma demo_run_subject_mismatch:
  "trace (final demo_env_subject_mismatch) =
     demo_preparation @ demo_attestation @ demo_reads @ [(demo_subject_upload, Returned)] \<and>
   outputs (final demo_env_subject_mismatch) =
     [(''attestation-manifest-sha'', ''sha256:bb''), (''referrer-index-manifest-sha'', ''sha256:cc'')] \<and>
   failures (final demo_env_subject_mismatch) =
     [''Unexpected digest returned for manifest. Expected sha256:aa, got sha256:ff'']"
  (is "?P (final demo_env_subject_mismatch)")
  apply (rule final_wpI [where P = "?P"])
  unfolding run_unfold
  apply (intro wp_intros)
  apply (auto simp: demo_defs eval_defs)
  done

lemma demo_run_attestation_mismatch:
  "trace (final demo_env_attestation_mismatch) =
     demo_preparation @ demo_attestation @ demo_reads @ [(demo_subject_upload, Returned)] \<and>
   outputs (final demo_env_attestation_mismatch) =
     [(''attestation-manifest-sha'', ''sha256:ee''), (''referrer-index-manifest-sha'', ''sha256:ff''),
      (''package-manifest-sha'', ''sha256:aa'')] \<and>
   failures (final demo_env_attestation_mismatch) = []"
  (is "?P (final demo_env_attestation_mismatch)")
  apply (rule final_wpI [where P = "?P"])
  unfolding run_unfold
  apply (intro wp_intros)
  apply (auto simp: demo_defs eval_defs)
  done

lemma demo_run_signing_fails:
  "trace (final demo_env_signing_fails) =
     demo_preparation @ [(Attest_provenance demo_attest_options, Threw (Error ''signing failed''))] \<and>
   outputs (final demo_env_signing_fails) = [] \<and>
   failures (final demo_env_signing_fails) = [''signing failed'']"
  (is "?P (final demo_env_signing_fails)")
  apply (rule final_wpI [where P = "?P"])
  unfolding run_unfold
  apply (intro wp_intros)
  apply (auto simp: demo_defs eval_defs)
  done

lemma demo_run_signing_rejects:
  "trace (final demo_env_signing_rejects) =
     demo_preparation @ [(Attest_provenance demo_attest_options, Threw (NonError ''timeout''))] \<and>
   outputs (final demo_env_signing_rejects) = [] \<and>
   failures (final demo_env_signing_rejects) = []"
  (is "?P (final demo_env_signing_rejects)")
  apply (rule final_wpI [where P = "?P"])
  unfolding run_unfold
  apply (intro wp_intros)
  apply (auto simp: demo_defs eval_defs)
  done

lemma demo_throws:
  "fst (run_try demo_env_signing_fails init_state) = Inl (Error ''signing failed'')"
  "fst (run_try demo_env_signing_rejects init_state) = Inl (NonError ''timeout'')"
  "fst (run_try demo_env_subject_throws init_state) = Inl (NonError ''503'')"
  "fst (run_try demo_env init_state) = Inr ()"
proof -
  show "fst (run_try demo_env_signing_fails init_state) = Inl (Error ''signing failed'')"
    apply (rule action_wpI [where P = "\<lambda>r. fst r = Inl (Error ''signing failed'')"])
    unfolding run_unfold
    apply (intro wp_intros)
    apply (auto simp: demo_defs eval_defs)
    done
  show "fst (run_try demo_env_signing_rejects init_state) = Inl (NonError ''timeout'')"
    apply (rule action_wpI [where P = "\<lambda>r. fst r = Inl (NonError ''timeout'')"])
    unfolding run_unfold
    apply (intro wp_intros)
    apply (auto simp: demo_defs eval_defs)
    done
  show "fst (run_try demo_env_subject_throws init_state) = Inl (NonError ''503'')"
    apply (rule action_wpI [where P = "\<lambda>r. fst r = Inl (NonError ''503'')"])
    unfolding run_unfold
    apply (intro wp_intros)
    apply (auto simp: demo_defs eval_defs)
    done
  show "fst (run_try demo_env init_state) = Inr ()"
    apply (rule action_wpI [where P = "\<lambda>r. fst r = Inr ()"])
    unfolding run_unfold
    apply (intro wp_intros)
    apply (auto simp: demo_defs eval_defs)
    done
qed

lemma demo_run_subject_throws:
  "trace (final demo_env_subject_throws) =
     demo_preparation @ demo_attestation @ demo_reads @
     [(demo_subject_upload, Threw (NonError ''503''))] \<and>
   outputs (final demo_env_subject_throws) =
     [(''attestation-manifest-sha'', ''sha256:bb''), (''referrer-index-manifest-sha'', ''sha256:cc'')] \<and>
   failures (final demo_env_subject_throws) = []"
  (is "?P (final demo_env_subject_throws)")
  apply (rule final_wpI [where P = "?P"])
  unfolding run_unfold
  apply (intro wp_intros)
  apply (auto simp: demo_defs eval_defs)
  done

section \<open>The claims\<close>

subsection \<open>C1: the digest returned for the subject manifest is verified\<close>

text \<open>
  C1. Whenever the upload of the subject manifest (the image-manifest upload with a tag)
  has returned a digest \<open>d\<close>, the run compares \<open>d\<close> with the digest computed locally for
  that manifest. If they differ, the run is marked failed with the message naming both
  digests, the upload is the last thing the run did, and \<^verbatim>\<open>package-manifest-sha\<close> is not
  set. If they are equal, nothing is reported as failed and \<^verbatim>\<open>package-manifest-sha\<close> is set
  to exactly \<open>d\<close>. Conversely, \<^verbatim>\<open>package-manifest-sha\<close> is set to a value only when the
  registry returned that value for the subject manifest and it equals the local digest.
\<close>

theorem subject_digest_verified:
  "((Upload_image_manifest t u n m files (Some tg), Returned) \<in> set (trace (final env)) \<and>
    uploadOCIImageManifest env t u n m files (Some tg) = Inr d \<longrightarrow>
      (d \<noteq> sha256Digest env (Inl m) \<longrightarrow>
         failures (final env) =
           [''Unexpected digest returned for manifest. Expected '' @ sha256Digest env (Inl m) @
            '', got '' @ d] \<and>
         last (trace (final env)) = (Upload_image_manifest t u n m files (Some tg), Returned) \<and>
         (\<forall>v. (''package-manifest-sha'', v) \<notin> set (outputs (final env)))) \<and>
      (d = sha256Digest env (Inl m) \<longrightarrow>
         failures (final env) = [] \<and>
         (\<forall>v. (''package-manifest-sha'', v) \<in> set (outputs (final env)) \<longleftrightarrow> v = d))) \<and>
   ((''package-manifest-sha'', v') \<in> set (outputs (final env)) \<longrightarrow>
      (\<exists>t u n m files tg.
         (Upload_image_manifest t u n m files (Some tg), Returned) \<in> set (trace (final env)) \<and>
         uploadOCIImageManifest env t u n m files (Some tg) = Inr v' \<and>
         v' = sha256Digest env (Inl m)))"
  (is "?P (final env)")
  apply (rule final_wpI [where P = "?P"])
  unfolding run_unfold
  apply (intro wp_intros)
  apply (auto simp: init_state_def catch_state_def err_unexpected_digest_def)
  done

text \<open>
  C1 at a registry that answers the subject upload with \<^verbatim>\<open>sha256:ff\<close> where \<^verbatim>\<open>sha256:aa\<close>
  was computed, and at an honest registry.
\<close>

theorem subject_digest_verified_witness:
  "(demo_subject_upload, Returned) \<in> set (trace (final demo_env_subject_mismatch)) \<and>
   uploadOCIImageManifest demo_env_subject_mismatch ''tk'' ''ghcr.io'' ''o/r'' ''aa''
     demo_subject_files (Some ''1.2.3'') = Inr ''sha256:ff'' \<and>
   sha256Digest demo_env_subject_mismatch (Inl ''aa'') = ''sha256:aa'' \<and>
   failures (final demo_env_subject_mismatch) =
     [''Unexpected digest returned for manifest. Expected sha256:aa, got sha256:ff''] \<and>
   (''package-manifest-sha'', ''sha256:ff'') \<notin> set (outputs (final demo_env_subject_mismatch)) \<and>
   (demo_subject_upload, Returned) \<in> set (trace (final demo_env)) \<and>
   uploadOCIImageManifest demo_env ''tk'' ''ghcr.io'' ''o/r'' ''aa''
     demo_subject_files (Some ''1.2.3'') = Inr ''sha256:aa'' \<and>
   sha256Digest demo_env (Inl ''aa'') = ''sha256:aa'' \<and>
   failures (final demo_env) = [] \<and>
   (''package-manifest-sha'', ''sha256:aa'') \<in> set (outputs (final demo_env))"
proof -
  have m1: "(Upload_image_manifest ''tk'' ''ghcr.io'' ''o/r'' ''aa'' demo_subject_files
              (Some ''1.2.3''), Returned) \<in> set (trace (final demo_env_subject_mismatch))"
    by (simp add: demo_run_subject_mismatch demo_subject_upload_def)
  have m2: "uploadOCIImageManifest demo_env_subject_mismatch ''tk'' ''ghcr.io'' ''o/r'' ''aa''
              demo_subject_files (Some ''1.2.3'') = Inr ''sha256:ff''"
    by (simp add: demo_env_subject_mismatch_def)
  have m3: "sha256Digest demo_env_subject_mismatch (Inl ''aa'') = ''sha256:aa''"
    by (simp add: demo_env_subject_mismatch_def demo_env_fields demo_digest_def)
  have h1: "(Upload_image_manifest ''tk'' ''ghcr.io'' ''o/r'' ''aa'' demo_subject_files
              (Some ''1.2.3''), Returned) \<in> set (trace (final demo_env))"
    by (simp add: demo_run demo_subject_upload_def)
  have h2: "uploadOCIImageManifest demo_env ''tk'' ''ghcr.io'' ''o/r'' ''aa''
              demo_subject_files (Some ''1.2.3'') = Inr ''sha256:aa''"
    by (simp add: demo_env_fields demo_digest_def)
  have h3: "sha256Digest demo_env (Inl ''aa'') = ''sha256:aa''"
    by (simp add: demo_env_fields demo_digest_def)
  from subject_digest_verified [where env = demo_env_subject_mismatch and t = "''tk''"
      and u = "''ghcr.io''" and n = "''o/r''" and m = "''aa''" and files = demo_subject_files
      and tg = "''1.2.3''" and d = "''sha256:ff''" and v' = "''sha256:ff''"] m1 m2 m3
  have a: "failures (final demo_env_subject_mismatch) =
     [''Unexpected digest returned for manifest. Expected sha256:aa, got sha256:ff''] \<and>
     (''package-manifest-sha'', ''sha256:ff'') \<notin> set (outputs (final demo_env_subject_mismatch))"
    by simp
  from subject_digest_verified [where env = demo_env and t = "''tk''"
      and u = "''ghcr.io''" and n = "''o/r''" and m = "''aa''" and files = demo_subject_files
      and tg = "''1.2.3''" and d = "''sha256:aa''" and v' = "''sha256:aa''"] h1 h2 h3
  have b: "failures (final demo_env) = [] \<and>
     (''package-manifest-sha'', ''sha256:aa'') \<in> set (outputs (final demo_env))"
    by simp
  from m1 m2 m3 h1 h2 h3 a b show ?thesis by (simp add: demo_subject_upload_def)
qed

subsection \<open>C2: the digests returned for the attestation manifest and the referrer index\<close>

text \<open>
  C2 says that the digests the registry returns for the attestation manifest and for
  the referrer index are compared with the local ones and that a mismatch is fatal.
  \<^verbatim>\<open>publishAttestation\<close> computes both local digests (lines 179-184) but only logs them,
  and \<^verbatim>\<open>run\<close> (lines 88-95) sets the outputs to whatever came back. At a registry that
  answers \<^verbatim>\<open>sha256:ee\<close> for the attestation manifest whose local digest is \<^verbatim>\<open>sha256:bb\<close>,
  and \<^verbatim>\<open>sha256:ff\<close> for the index whose local digest is \<^verbatim>\<open>sha256:cc\<close>, the run reports no
  failure, sets both outputs to the foreign digests and goes on to publish the subject
  manifest.
\<close>

theorem attestation_digest_mismatch_accepted:
  "(demo_attestation_upload, Returned) \<in> set (trace (final demo_env_attestation_mismatch)) \<and>
   uploadOCIImageManifest demo_env_attestation_mismatch ''tk'' ''ghcr.io'' ''o/r'' ''bb''
     demo_attestation_files None = Inr ''sha256:ee'' \<and>
   sha256Digest demo_env_attestation_mismatch (Inl ''bb'') = ''sha256:bb'' \<and>
   (demo_index_upload, Returned) \<in> set (trace (final demo_env_attestation_mismatch)) \<and>
   uploadOCIIndexManifest demo_env_attestation_mismatch ''tk'' ''ghcr.io'' ''o/r'' ''cc''
     (Some ''sha256-aa'') = Inr ''sha256:ff'' \<and>
   sha256Digest demo_env_attestation_mismatch (Inr ''cc'') = ''sha256:cc'' \<and>
   failures (final demo_env_attestation_mismatch) = [] \<and>
   outputs (final demo_env_attestation_mismatch) =
     [(''attestation-manifest-sha'', ''sha256:ee''), (''referrer-index-manifest-sha'', ''sha256:ff''),
      (''package-manifest-sha'', ''sha256:aa'')] \<and>
   (demo_subject_upload, Returned) \<in> set (trace (final demo_env_attestation_mismatch))"
proof -
  have a: "uploadOCIImageManifest demo_env_attestation_mismatch ''tk'' ''ghcr.io'' ''o/r'' ''bb''
     demo_attestation_files None = Inr ''sha256:ee''"
    by (simp add: demo_env_attestation_mismatch_def)
  have b: "uploadOCIIndexManifest demo_env_attestation_mismatch ''tk'' ''ghcr.io'' ''o/r'' ''cc''
     (Some ''sha256-aa'') = Inr ''sha256:ff''"
    by (simp add: demo_env_attestation_mismatch_def)
  have c: "sha256Digest demo_env_attestation_mismatch (Inl ''bb'') = ''sha256:bb''"
    "sha256Digest demo_env_attestation_mismatch (Inr ''cc'') = ''sha256:cc''"
    by (simp_all add: demo_env_attestation_mismatch_def demo_env_fields demo_digest_def)
  from a b c demo_run_attestation_mismatch show ?thesis
    by (simp add: demo_attestation_def)
qed

subsection \<open>C3: the tag of the referrer index\<close>

text \<open>
  C3. If the digest of the subject manifest is \<^verbatim>\<open>sha256:\<close> followed by hex digits, then
  every upload of a referrer index that \<^verbatim>\<open>publishAttestation\<close> makes carries the tag
  \<^verbatim>\<open>sha256-\<close> followed by the same hex digits, and that tag holds no colon.
  \<^verbatim>\<open>publishAttestation\<close> has no tag parameter: the tag is a function of the digest of
  its \<open>subjectManifest\<close> argument alone.
\<close>

theorem referrer_tag_derived_from_subject_digest:
  "sha256Digest env (Inl subjectManifest) = ''sha256:'' @ hex \<and> (\<forall>c\<in>set hex. hex_digit c) \<and>
   (Upload_index_manifest t u n i tg, oc) \<in>
     set (trace (snd (publishAttestation env options bundleB bundleDigest subjectManifest
            attestationManifest referrerIndexManifest init_state))) \<longrightarrow>
   tg = Some (''sha256-'' @ hex) \<and> CHR '':'' \<notin> set (''sha256-'' @ hex)"
proof (intro impI, elim conjE)
  assume d: "sha256Digest env (Inl subjectManifest) = ''sha256:'' @ hex"
    and h: "\<forall>c\<in>set hex. hex_digit c"
    and up: "(Upload_index_manifest t u n i tg, oc) \<in>
     set (trace (snd (publishAttestation env options bundleB bundleDigest subjectManifest
            attestationManifest referrerIndexManifest init_state)))"
  have "CHR '':'' \<notin> set hex"
    using h hex_digit_not_colon by blast
  moreover have "tg = Some (replace_first CHR '':'' ''-'' (sha256Digest env (Inl subjectManifest)))"
    using up
    by (auto simp: publishAttestation_def andThen_def core_info_def ghcr_uploadOCIImageManifest_def
        ghcr_uploadOCIIndexManifest_def external_def return_def Let_def init_state_def
        split: sum.splits)
  ultimately show "tg = Some (''sha256-'' @ hex) \<and> CHR '':'' \<notin> set (''sha256-'' @ hex)"
    using d by simp
qed

text \<open>C3 at the subject manifest of the concrete run, whose digest is \<^verbatim>\<open>sha256:aa\<close>.\<close>

theorem referrer_tag_derived_from_subject_digest_witness:
  "sha256Digest demo_env (Inl ''aa'') = ''sha256:'' @ ''aa'' \<and>
   hex_digit CHR ''a'' \<and>
   (Upload_index_manifest ''tk'' ''ghcr.io'' ''o/r'' ''cc'' (Some ''sha256-aa''), Returned) \<in>
     set (trace (snd (publishAttestation demo_env demo_options ''{sig}'' ''sha256:dd'' ''aa'' ''bb''
            ''cc'' init_state))) \<and>
   CHR '':'' \<notin> set ''sha256-aa''"
proof -
  have a: "sha256Digest demo_env (Inl ''aa'') = ''sha256:'' @ ''aa''"
    by (simp add: demo_env_fields demo_digest_def)
  have b: "\<forall>c\<in>set ''aa''. hex_digit c"
    by (simp add: hex_digit_def)
  have c: "(Upload_index_manifest ''tk'' ''ghcr.io'' ''o/r'' ''cc'' (Some ''sha256-aa''), Returned) \<in>
     set (trace (snd (publishAttestation demo_env demo_options ''{sig}'' ''sha256:dd'' ''aa'' ''bb''
            ''cc'' init_state)))"
    by (simp add: publishAttestation_def andThen_def core_info_def ghcr_uploadOCIImageManifest_def
        ghcr_uploadOCIIndexManifest_def external_def outcome_of_def return_def Let_def
        init_state_def demo_env_fields demo_digest_def demo_options_def)
  from referrer_tag_derived_from_subject_digest [where env = demo_env and subjectManifest = "''aa''"
      and hex = "''aa''" and t = "''tk''" and u = "''ghcr.io''" and n = "''o/r''" and i = "''cc''"
      and tg = "Some ''sha256-aa''" and oc = Returned and options = demo_options
      and bundleB = "''{sig}''" and bundleDigest = "''sha256:dd''" and attestationManifest = "''bb''"
      and referrerIndexManifest = "''cc''"] a b c
  have "CHR '':'' \<notin> set (''sha256-'' @ ''aa'')" by blast
  with a b c show ?thesis by simp
qed

subsection \<open>C7: the blobs handed to the two image-manifest uploads\<close>

text \<open>
  C7. The file set that \<^verbatim>\<open>publishImmutableActionVersion\<close> hands to the upload is the zip
  bytes under the zip digest, the tar bytes under the tar digest and the two bytes
  \<^verbatim>\<open>{}\<close> under \<open>emptyConfigSha\<close>, and nothing else; the file set that
  \<^verbatim>\<open>publishAttestation\<close> hands to the upload is \<^verbatim>\<open>{}\<close> under \<open>emptyConfigSha\<close> and the
  bundle under the bundle digest, and nothing else. The key of \<^verbatim>\<open>{}\<close> is the constant
  \<open>emptyConfigSha\<close> of the environment whatever its hash functions compute. A later
  entry replaces an earlier one with the same key, so each content is found under its
  key provided no later key equals it.
\<close>

theorem blob_file_sets:
  "((Upload_image_manifest t u n m files tg, oc) \<in>
      set (trace (snd (publishImmutableActionVersion env options semverTag zipF tarF manifest
             init_state))) \<longrightarrow>
    (\<exists>zipContents tarContents.
       readFileContents env (path zipF) = Inr zipContents \<and>
       readFileContents env (path tarF) = Inr tarContents \<and>
       files = [sha256 zipF \<mapsto> zipContents, sha256 tarF \<mapsto> tarContents,
                emptyConfigSha env \<mapsto> ''{}''] \<and>
       dom files = {sha256 zipF, sha256 tarF, emptyConfigSha env} \<and>
       files (emptyConfigSha env) = Some ''{}'' \<and>
       (sha256 tarF \<noteq> emptyConfigSha env \<longrightarrow> files (sha256 tarF) = Some tarContents) \<and>
       (sha256 zipF \<noteq> sha256 tarF \<and> sha256 zipF \<noteq> emptyConfigSha env \<longrightarrow>
          files (sha256 zipF) = Some zipContents))) \<and>
   ((Upload_image_manifest t' u' n' m' files' tg', oc') \<in>
      set (trace (snd (publishAttestation env options bundleB bundleDigest subjectManifest
             attestationManifest referrerIndexManifest init_state))) \<longrightarrow>
    files' = [emptyConfigSha env \<mapsto> ''{}'', bundleDigest \<mapsto> bundleB] \<and>
    dom files' = {emptyConfigSha env, bundleDigest} \<and>
    files' bundleDigest = Some bundleB \<and>
    (bundleDigest \<noteq> emptyConfigSha env \<longrightarrow> files' (emptyConfigSha env) = Some ''{}''))"
proof (rule conjI)
  show "(Upload_image_manifest t u n m files tg, oc) \<in>
      set (trace (snd (publishImmutableActionVersion env options semverTag zipF tarF manifest
             init_state))) \<longrightarrow>
    (\<exists>zipContents tarContents.
       readFileContents env (path zipF) = Inr zipContents \<and>
       readFileContents env (path tarF) = Inr tarContents \<and>
       files = [sha256 zipF \<mapsto> zipContents, sha256 tarF \<mapsto> tarContents,
                emptyConfigSha env \<mapsto> ''{}''] \<and>
       dom files = {sha256 zipF, sha256 tarF, emptyConfigSha env} \<and>
       files (emptyConfigSha env) = Some ''{}'' \<and>
       (sha256 tarF \<noteq> emptyConfigSha env \<longrightarrow> files (sha256 tarF) = Some tarContents) \<and>
       (sha256 zipF \<noteq> sha256 tarF \<and> sha256 zipF \<noteq> emptyConfigSha env \<longrightarrow>
          files (sha256 zipF) = Some zipContents))"
    by (auto simp: publishImmutableActionVersion_def andThen_def core_info_def
        ghcr_uploadOCIImageManifest_def fsHelper_readFileContents_def Buffer_from_def external_def
        Let_def init_state_def split: sum.splits)
next
  show "(Upload_image_manifest t' u' n' m' files' tg', oc') \<in>
      set (trace (snd (publishAttestation env options bundleB bundleDigest subjectManifest
             attestationManifest referrerIndexManifest init_state))) \<longrightarrow>
    files' = [emptyConfigSha env \<mapsto> ''{}'', bundleDigest \<mapsto> bundleB] \<and>
    dom files' = {emptyConfigSha env, bundleDigest} \<and>
    files' bundleDigest = Some bundleB \<and>
    (bundleDigest \<noteq> emptyConfigSha env \<longrightarrow> files' (emptyConfigSha env) = Some ''{}'')"
    by (auto simp: publishAttestation_def andThen_def core_info_def ghcr_uploadOCIImageManifest_def
        ghcr_uploadOCIIndexManifest_def Buffer_from_def external_def return_def Let_def
        init_state_def split: sum.splits)
qed

text \<open>C7 at the two uploads of the concrete run.\<close>

theorem blob_file_sets_witness:
  "(Upload_image_manifest ''tk'' ''ghcr.io'' ''o/r'' ''aa'' demo_subject_files (Some ''1.2.3''), Returned) \<in>
      set (trace (snd (publishImmutableActionVersion demo_env demo_options ''1.2.3''
             (zipFile demo_archives) (tarFile demo_archives) ''aa'' init_state))) \<and>
   readFileContents demo_env (path (zipFile demo_archives)) = Inr ''data:/a.zip'' \<and>
   readFileContents demo_env (path (tarFile demo_archives)) = Inr ''data:/a.tar'' \<and>
   dom demo_subject_files = {''sha256:02'', ''sha256:01'', ''sha256:44''} \<and>
   demo_subject_files ''sha256:02'' = Some ''data:/a.zip'' \<and>
   demo_subject_files ''sha256:01'' = Some ''data:/a.tar'' \<and>
   demo_subject_files ''sha256:44'' = Some ''{}'' \<and>
   (Upload_image_manifest ''tk'' ''ghcr.io'' ''o/r'' ''bb'' demo_attestation_files None, Returned) \<in>
      set (trace (snd (publishAttestation demo_env demo_options ''{sig}'' ''sha256:dd'' ''aa'' ''bb''
             ''cc'' init_state))) \<and>
   dom demo_attestation_files = {''sha256:44'', ''sha256:dd''} \<and>
   demo_attestation_files ''sha256:dd'' = Some ''{sig}'' \<and>
   demo_attestation_files ''sha256:44'' = Some ''{}''"
proof -
  have a: "(Upload_image_manifest ''tk'' ''ghcr.io'' ''o/r'' ''aa'' demo_subject_files (Some ''1.2.3''), Returned) \<in>
      set (trace (snd (publishImmutableActionVersion demo_env demo_options ''1.2.3''
             (zipFile demo_archives) (tarFile demo_archives) ''aa'' init_state)))"
    by (simp add: publishImmutableActionVersion_def andThen_def core_info_def
        ghcr_uploadOCIImageManifest_def fsHelper_readFileContents_def Buffer_from_def external_def
        outcome_of_def Let_def init_state_def demo_env_fields demo_options_def demo_archives_def
        demo_subject_files_def)
  have b: "(Upload_image_manifest ''tk'' ''ghcr.io'' ''o/r'' ''bb'' demo_attestation_files None, Returned) \<in>
      set (trace (snd (publishAttestation demo_env demo_options ''{sig}'' ''sha256:dd'' ''aa'' ''bb''
             ''cc'' init_state)))"
    by (simp add: publishAttestation_def andThen_def core_info_def ghcr_uploadOCIImageManifest_def
        ghcr_uploadOCIIndexManifest_def Buffer_from_def external_def outcome_of_def return_def
        Let_def init_state_def demo_env_fields demo_options_def demo_attestation_files_def)
  have c: "sha256 (zipFile demo_archives) = ''sha256:02''" "sha256 (tarFile demo_archives) = ''sha256:01''"
    "emptyConfigSha demo_env = ''sha256:44''"
    "readFileContents demo_env (path (zipFile demo_archives)) = Inr ''data:/a.zip''"
    "readFileContents demo_env (path (tarFile demo_archives)) = Inr ''data:/a.tar''"
    by (simp_all add: demo_archives_def demo_env_fields)
  from blob_file_sets [where env = demo_env and options = demo_options and semverTag = "''1.2.3''"
      and zipF = "zipFile demo_archives" and tarF = "tarFile demo_archives" and manifest = "''aa''"
      and t = "''tk''" and u = "''ghcr.io''" and n = "''o/r''" and m = "''aa''"
      and files = demo_subject_files and tg = "Some ''1.2.3''" and oc = Returned
      and t' = "''tk''" and u' = "''ghcr.io''" and n' = "''o/r''" and m' = "''bb''"
      and files' = demo_attestation_files and tg' = None and oc' = Returned
      and bundleB = "''{sig}''" and bundleDigest = "''sha256:dd''" and subjectManifest = "''aa''"
      and attestationManifest = "''bb''" and referrerIndexManifest = "''cc''"] a b c
  have "dom demo_subject_files = {''sha256:02'', ''sha256:01'', ''sha256:44''} \<and>
   demo_subject_files ''sha256:02'' = Some ''data:/a.zip'' \<and>
   demo_subject_files ''sha256:01'' = Some ''data:/a.tar'' \<and>
   demo_subject_files ''sha256:44'' = Some ''{}'' \<and>
   dom demo_attestation_files = {''sha256:44'', ''sha256:dd''} \<and>
   demo_attestation_files ''sha256:dd'' = Some ''{sig}'' \<and>
   demo_attestation_files ''sha256:44'' = Some ''{}''"
    by simp
  with a b c show ?thesis by simp
qed

subsection \<open>C4: the referrer index is pushed after the attestation manifest\<close>

text \<open>
  C4. In every run, a call that uploads a referrer index comes later in the trace than a
  call that uploaded an attestation manifest (an image manifest without a tag) to the
  same repository and returned, and the index uploaded is the one built from the digest
  and size of that attestation manifest.
\<close>

theorem referrer_index_after_attestation_manifest:
  "i < length (trace (final env)) \<and>
   fst (trace (final env) ! i) = Upload_index_manifest t u n idx tg \<longrightarrow>
   (\<exists>j<i. \<exists>am files.
      trace (final env) ! j = (Upload_image_manifest t u n am files None, Returned) \<and>
      (\<exists>d. createReferrerTagManifest env (sha256Digest env (Inl am)) (sizeInBytes env (Inl am)) d =
           Inr idx))"
  (is "?P (final env)")
  apply (rule final_wpI [where P = "?P"])
  unfolding run_unfold
  apply (intro wp_intros)
  apply (auto simp: init_state_def catch_state_def less_Suc_eq nth_Cons')
  done

text \<open>C4 at the concrete run: the index is the twelfth call, the attestation manifest the eleventh.\<close>

theorem referrer_index_after_attestation_manifest_witness:
  "11 < length (trace (final demo_env)) \<and>
   fst (trace (final demo_env) ! 11) =
     Upload_index_manifest ''tk'' ''ghcr.io'' ''o/r'' ''cc'' (Some ''sha256-aa'') \<and>
   trace (final demo_env) ! 10 =
     (Upload_image_manifest ''tk'' ''ghcr.io'' ''o/r'' ''bb'' demo_attestation_files None, Returned) \<and>
   (\<exists>j<11. \<exists>am files.
      trace (final demo_env) ! j = (Upload_image_manifest ''tk'' ''ghcr.io'' ''o/r'' am files None, Returned) \<and>
      (\<exists>d. createReferrerTagManifest demo_env (sha256Digest demo_env (Inl am))
             (sizeInBytes demo_env (Inl am)) d = Inr ''cc''))"
proof -
  have a: "11 < length (trace (final demo_env))"
    by (simp add: demo_run demo_preparation_def demo_attestation_def demo_reads_def)
  have b: "fst (trace (final demo_env) ! 11) =
     Upload_index_manifest ''tk'' ''ghcr.io'' ''o/r'' ''cc'' (Some ''sha256-aa'')"
    by (simp add: demo_run demo_preparation_def demo_attestation_def demo_reads_def
        demo_index_upload_def)
  have c: "trace (final demo_env) ! 10 =
     (Upload_image_manifest ''tk'' ''ghcr.io'' ''o/r'' ''bb'' demo_attestation_files None, Returned)"
    by (simp add: demo_run demo_preparation_def demo_attestation_def demo_reads_def
        demo_attestation_upload_def)
  from referrer_index_after_attestation_manifest [where env = demo_env and i = 11
      and t = "''tk''" and u = "''ghcr.io''" and n = "''o/r''" and idx = "''cc''"
      and tg = "Some ''sha256-aa''"] a b
  have "\<exists>j<11. \<exists>am files.
      trace (final demo_env) ! j = (Upload_image_manifest ''tk'' ''ghcr.io'' ''o/r'' am files None, Returned) \<and>
      (\<exists>d. createReferrerTagManifest demo_env (sha256Digest demo_env (Inl am))
             (sizeInBytes demo_env (Inl am)) d = Inr ''cc'')"
    by blast
  with a b c show ?thesis by blast
qed

subsection \<open>C5: the attestation branch runs exactly when the registry is not an enterprise one\<close>

text \<open>
  C5. Let the options resolve. A call of the attestation branch (the signing request,
  the two builders, the upload of the attestation manifest, the upload of the referrer
  index) occurs in a run only if \<open>isEnterprise\<close> is false. If \<open>isEnterprise\<close> is false and
  the run got as far as building the package manifest, the signing request is made; if
  moreover no call threw, all five calls of the branch are made. If \<open>isEnterprise\<close> is true,
  no upload other than a tagged image-manifest upload is made, the only output is
  \<^verbatim>\<open>package-manifest-sha\<close>, and once the package manifest is built the run goes on to read
  the zip archive it was built from. In a run that built the package manifest and in
  which no call threw, the last call is the upload, to the repository of the options, of
  the very manifest that \<^verbatim>\<open>createActionPackageManifest\<close> returned, with a tag; when
  \<open>isEnterprise\<close> is true that upload is the only upload of the run.
\<close>

theorem attestation_branch_iff_not_enterprise:
  "resolvePublishActionOptions env = Inr options \<longrightarrow>
     ((\<exists>x\<in>set (trace (final env)). is_attestation_call (fst x)) \<longrightarrow> \<not> isEnterprise options) \<and>
     ((\<exists>x\<in>set (trace (final env)). is_package_manifest_construction (fst x) \<and> snd x = Returned) \<and>
      \<not> isEnterprise options \<longrightarrow>
        (\<exists>a oc. (Attest_provenance a, oc) \<in> set (trace (final env)))) \<and>
     ((\<exists>x\<in>set (trace (final env)). is_package_manifest_construction (fst x)) \<and>
      (\<forall>x\<in>set (trace (final env)). snd x = Returned) \<and> \<not> isEnterprise options \<longrightarrow>
        length (filter (\<lambda>x. is_attestation_call (fst x)) (trace (final env))) = 5) \<and>
     (isEnterprise options \<longrightarrow>
        (\<forall>x\<in>set (trace (final env)). is_upload (fst x) \<longrightarrow> is_subject_upload (fst x)) \<and>
        (\<forall>x\<in>set (outputs (final env)). fst x = ''package-manifest-sha'')) \<and>
     (isEnterprise options \<and>
      (\<exists>x\<in>set (trace (final env)). is_package_manifest_construction (fst x) \<and> snd x = Returned) \<longrightarrow>
        (\<exists>t z n rid oid c v d oc.
           (Create_action_package_manifest t z n rid oid c v d, Returned) \<in> set (trace (final env)) \<and>
           (Read_file_contents (path z), oc) \<in> set (trace (final env)))) \<and>
     ((\<exists>x\<in>set (trace (final env)). is_package_manifest_construction (fst x)) \<and>
      (\<forall>x\<in>set (trace (final env)). snd x = Returned) \<longrightarrow>
        (\<exists>t z n rid oid c v d m files tg.
           (Create_action_package_manifest t z n rid oid c v d, Returned) \<in> set (trace (final env)) \<and>
           createActionPackageManifest env t z n rid oid c v d = Inr m \<and>
           last (trace (final env)) =
             (Upload_image_manifest (token options) (containerRegistryUrl options)
                (nameWithOwner options) m files (Some tg), Returned) \<and>
           (isEnterprise options \<longrightarrow>
              filter (\<lambda>x. is_upload (fst x)) (trace (final env)) =
                [(Upload_image_manifest (token options) (containerRegistryUrl options)
                    (nameWithOwner options) m files (Some tg), Returned)])))"
  (is "?P (final env)")
  apply (rule final_wpI [where P = "?P"])
  unfolding run_unfold
  apply (intro wp_intros)
  apply (auto simp: init_state_def catch_state_def)
  done

text \<open>C5 at the concrete run and at the same run against an enterprise server.\<close>

theorem attestation_branch_iff_not_enterprise_witness:
  "resolvePublishActionOptions demo_env = Inr demo_options \<and>
   \<not> isEnterprise demo_options \<and>
   (\<exists>x\<in>set (trace (final demo_env)). is_package_manifest_construction (fst x) \<and> snd x = Returned) \<and>
   (\<exists>a oc. (Attest_provenance a, oc) \<in> set (trace (final demo_env))) \<and>
   length (filter (\<lambda>x. is_attestation_call (fst x)) (trace (final demo_env))) = 5 \<and>
   resolvePublishActionOptions demo_env_enterprise = Inr (demo_options\<lparr>isEnterprise := True\<rparr>) \<and>
   isEnterprise (demo_options\<lparr>isEnterprise := True\<rparr>) \<and>
   \<not> (\<exists>x\<in>set (trace (final demo_env_enterprise)). is_attestation_call (fst x)) \<and>
   (\<exists>x\<in>set (trace (final demo_env_enterprise)).
      is_package_manifest_construction (fst x) \<and> snd x = Returned) \<and>
   \<not> (\<exists>x\<in>set (trace (final demo_env_enterprise)). snd x \<noteq> Returned) \<and>
   (\<exists>t z n rid oid c v d m files tg.
      (Create_action_package_manifest t z n rid oid c v d, Returned) \<in>
        set (trace (final demo_env_enterprise)) \<and>
      createActionPackageManifest demo_env_enterprise t z n rid oid c v d = Inr m \<and>
      filter (\<lambda>x. is_upload (fst x)) (trace (final demo_env_enterprise)) =
        [(Upload_image_manifest ''tk'' ''ghcr.io'' ''o/r'' m files (Some tg), Returned)]) \<and>
   filter (\<lambda>x. is_upload (fst x)) (trace (final demo_env_enterprise)) =
     [(demo_subject_upload, Returned)] \<and>
   outputs (final demo_env_enterprise) = [(''package-manifest-sha'', ''sha256:aa'')]"
proof -
  have a: "resolvePublishActionOptions demo_env = Inr demo_options"
    by (simp add: demo_env_fields)
  have b: "\<not> isEnterprise demo_options"
    by (simp add: demo_options_def)
  have c: "\<exists>x\<in>set (trace (final demo_env)). is_package_manifest_construction (fst x) \<and> snd x = Returned"
    by (simp add: demo_run demo_preparation_def)
  have d: "\<forall>x\<in>set (trace (final demo_env)). snd x = Returned"
    by (simp add: demo_run demo_preparation_def demo_attestation_def demo_reads_def)
  from attestation_branch_iff_not_enterprise [where env = demo_env and options = demo_options]
    a b c d
  have e: "(\<exists>a oc. (Attest_provenance a, oc) \<in> set (trace (final demo_env))) \<and>
     length (filter (\<lambda>x. is_attestation_call (fst x)) (trace (final demo_env))) = 5"
    by blast
  have f: "resolvePublishActionOptions demo_env_enterprise = Inr (demo_options\<lparr>isEnterprise := True\<rparr>)"
    by (simp add: demo_env_enterprise_def)
  have g: "isEnterprise (demo_options\<lparr>isEnterprise := True\<rparr>)"
    by simp
  have k: "\<exists>x\<in>set (trace (final demo_env_enterprise)).
      is_package_manifest_construction (fst x) \<and> snd x = Returned"
    by (simp add: demo_run_enterprise demo_preparation_def)
  have k': "\<exists>x\<in>set (trace (final demo_env_enterprise)). is_package_manifest_construction (fst x)"
    using k by blast
  have l: "\<forall>x\<in>set (trace (final demo_env_enterprise)). snd x = Returned"
    by (simp add: demo_run_enterprise demo_preparation_def demo_reads_def)
  have tk: "token (demo_options\<lparr>isEnterprise := True\<rparr>) = ''tk''"
    "containerRegistryUrl (demo_options\<lparr>isEnterprise := True\<rparr>) = ''ghcr.io''"
    "nameWithOwner (demo_options\<lparr>isEnterprise := True\<rparr>) = ''o/r''"
    by (simp_all add: demo_options_def)
  note th = attestation_branch_iff_not_enterprise [where env = demo_env_enterprise
      and options = "demo_options\<lparr>isEnterprise := True\<rparr>", unfolded tk]
  from th f g
  have h: "\<not> (\<exists>x\<in>set (trace (final demo_env_enterprise)). is_attestation_call (fst x))"
    by blast
  from th f g k' l
  have u: "\<exists>t z n rid oid c v d m files tg.
      (Create_action_package_manifest t z n rid oid c v d, Returned) \<in>
        set (trace (final demo_env_enterprise)) \<and>
      createActionPackageManifest demo_env_enterprise t z n rid oid c v d = Inr m \<and>
      filter (\<lambda>x. is_upload (fst x)) (trace (final demo_env_enterprise)) =
        [(Upload_image_manifest ''tk'' ''ghcr.io'' ''o/r'' m files (Some tg), Returned)]"
    by blast
  have w: "filter (\<lambda>x. is_upload (fst x)) (trace (final demo_env_enterprise)) =
     [(demo_subject_upload, Returned)]"
    by (simp add: demo_run_enterprise demo_preparation_def demo_reads_def demo_subject_upload_def)
  have l': "\<not> (\<exists>x\<in>set (trace (final demo_env_enterprise)). snd x \<noteq> Returned)"
    using l by blast
  from a b c e f g h k l' u w demo_run_enterprise show ?thesis
    by (intro conjI) blast+
qed

subsection \<open>C6: a failure in the attestation branch stops the run\<close>

text \<open>
  C6 says that when a step of the attestation branch fails the whole run fails. The
  \<^verbatim>\<open>catch\<close> clause of \<^verbatim>\<open>run\<close> calls \<^verbatim>\<open>core.setFailed\<close> only for an instance of \<^verbatim>\<open>Error\<close>
  (line 115). Here the signing service throws the value \<^verbatim>\<open>timeout\<close>, which is no
  \<^verbatim>\<open>Error\<close>: the run returns and is not marked failed.
\<close>

theorem attestation_failure_not_marked_failed_counterexample:
  "(Attest_provenance demo_attest_options, Threw (NonError ''timeout'')) \<in>
     set (trace (final demo_env_signing_rejects)) \<and>
   is_attestation_call (Attest_provenance demo_attest_options :: (string, string) call) \<and>
   \<not> isEnterprise demo_options \<and>
   resolvePublishActionOptions demo_env_signing_rejects = Inr demo_options \<and>
   fst (run demo_env_signing_rejects init_state) = Inr () \<and>
   failures (final demo_env_signing_rejects) = []"
proof -
  have "fst (run demo_env_signing_rejects init_state) = Inr ()"
    by (simp add: run_def core_setFailed_def split: prod.splits sum.splits)
  moreover have "resolvePublishActionOptions demo_env_signing_rejects = Inr demo_options"
    by (simp add: demo_env_signing_rejects_def demo_env_fields)
  moreover have "\<not> isEnterprise demo_options"
    by (simp add: demo_options_def)
  ultimately show ?thesis
    using demo_run_signing_rejects by simp
qed

text \<open>
  C6, amended. If a call of the attestation branch throws, it is the last call of the
  run: no archive is read and the subject manifest is not uploaded afterwards, and no
  output is set. The run is marked failed, with the message of the thrown value, when
  that value is an \<^verbatim>\<open>Error\<close>; it is not marked failed when the value is no \<^verbatim>\<open>Error\<close>.
\<close>

theorem attestation_failure_aborts_run:
  "(c, Threw e) \<in> set (trace (final env)) \<and> is_attestation_call c \<longrightarrow>
     (\<forall>x\<in>set (trace (final env)). \<not> is_subject_stage_call (fst x)) \<and>
     last (trace (final env)) = (c, Threw e) \<and>
     outputs (final env) = [] \<and>
     failures (final env) = (if instanceof_Error e then [message e] else [])"
  (is "?P (final env)")
  apply (rule final_wpI [where P = "?P"])
  unfolding run_unfold
  apply (intro wp_intros)
  apply (auto simp: init_state_def catch_state_def)
  done

text \<open>
  The amended C6 at a signing service that throws an \<^verbatim>\<open>Error\<close> and at one that throws a
  value that is no \<^verbatim>\<open>Error\<close>.
\<close>

theorem attestation_failure_aborts_run_witness:
  "(Attest_provenance demo_attest_options, Threw (Error ''signing failed'')) \<in>
     set (trace (final demo_env_signing_fails)) \<and>
   is_attestation_call (Attest_provenance demo_attest_options :: (string, string) call) \<and>
   \<not> (\<exists>x\<in>set (trace (final demo_env_signing_fails)). is_subject_stage_call (fst x)) \<and>
   last (trace (final demo_env_signing_fails)) =
     (Attest_provenance demo_attest_options, Threw (Error ''signing failed'')) \<and>
   outputs (final demo_env_signing_fails) = [] \<and>
   failures (final demo_env_signing_fails) = [''signing failed''] \<and>
   (Attest_provenance demo_attest_options, Threw (NonError ''timeout'')) \<in>
     set (trace (final demo_env_signing_rejects)) \<and>
   \<not> (\<exists>x\<in>set (trace (final demo_env_signing_rejects)). is_subject_stage_call (fst x)) \<and>
   last (trace (final demo_env_signing_rejects)) =
     (Attest_provenance demo_attest_options, Threw (NonError ''timeout'')) \<and>
   outputs (final demo_env_signing_rejects) = [] \<and>
   failures (final demo_env_signing_rejects) = []"
proof -
  have a: "(Attest_provenance demo_attest_options, Threw (Error ''signing failed'')) \<in>
     set (trace (final demo_env_signing_fails))"
    by (simp add: demo_run_signing_fails)
  have b: "is_attestation_call (Attest_provenance demo_attest_options :: (string, string) call)"
    by simp
  from attestation_failure_aborts_run [where env = demo_env_signing_fails
      and c = "Attest_provenance demo_attest_options" and e = "Error ''signing failed''"] a b
  have c: "(\<forall>x\<in>set (trace (final demo_env_signing_fails)). \<not> is_subject_stage_call (fst x)) \<and>
     last (trace (final demo_env_signing_fails)) =
       (Attest_provenance demo_attest_options, Threw (Error ''signing failed'')) \<and>
     outputs (final demo_env_signing_fails) = [] \<and>
     failures (final demo_env_signing_fails) = [''signing failed'']"
    by simp
  have d: "(Attest_provenance demo_attest_options, Threw (NonError ''timeout'')) \<in>
     set (trace (final demo_env_signing_rejects))"
    by (simp add: demo_run_signing_rejects)
  from attestation_failure_aborts_run [where env = demo_env_signing_rejects
      and c = "Attest_provenance demo_attest_options" and e = "NonError ''timeout''"] d b
  have e: "(\<forall>x\<in>set (trace (final demo_env_signing_rejects)). \<not> is_subject_stage_call (fst x)) \<and>
     last (trace (final demo_env_signing_rejects)) =
       (Attest_provenance demo_attest_options, Threw (NonError ''timeout'')) \<and>
     outputs (final demo_env_signing_rejects) = [] \<and>
     failures (final demo_env_signing_rejects) = []"
    by simp
  from a b c d e show ?thesis by blast
qed

subsection \<open>C8: a ref that is no semantic-version tag fails the run at once\<close>

text \<open>
  C8. Let the options resolve. If the ref does not start with \<^verbatim>\<open>refs/tags/\<close>, or if it is
  \<^verbatim>\<open>refs/tags/\<close> followed by a tag that, with one leading \<^verbatim>\<open>v\<close> removed, does not parse as a
  semantic version, then the run is marked failed with the validation message, the only
  collaborator it has called is the one that resolves the options (nothing is checked
  out, staged, archived, built or uploaded), and no output is set. Removing the leading
  \<^verbatim>\<open>v\<close> removes exactly one character, and nothing when the tag does not start with \<^verbatim>\<open>v\<close>.
\<close>

theorem invalid_ref_fails_before_any_work:
  "resolvePublishActionOptions env = Inr options \<longrightarrow>
     (\<not> startsWith (ref options) ''refs/tags/'' \<longrightarrow>
        fst (run env init_state) = Inr () \<and>
        trace (final env) = [(Resolve_options, Returned)] \<and>
        outputs (final env) = [] \<and>
        failures (final env) = [''The ref '' @ ref options @ '' is not a valid tag reference.'']) \<and>
     (ref options = ''refs/tags/'' @ rawTag \<and>
      semver_parse env (replace_leading ''v'' rawTag) = None \<longrightarrow>
        fst (run env init_state) = Inr () \<and>
        trace (final env) = [(Resolve_options, Returned)] \<and>
        outputs (final env) = [] \<and>
        failures (final env) =
          [rawTag @
           '' is not a valid semantic version tag, and so cannot be uploaded to the action package.'']) \<and>
     replace_leading ''v'' (''v'' @ rest) = rest \<and>
     (\<not> startsWith rest ''v'' \<longrightarrow> replace_leading ''v'' rest = rest)"
proof (intro impI conjI)
  show "fst (run env init_state) = Inr ()" "fst (run env init_state) = Inr ()"
    by (simp_all add: run_def core_setFailed_def split: prod.splits sum.splits)
  show "replace_leading ''v'' (''v'' @ rest) = rest"
    by (simp only: replace_leading_append)
  show "\<not> startsWith rest ''v'' \<Longrightarrow> replace_leading ''v'' rest = rest"
    by (simp add: replace_leading_def)
next
  have f: "trace (final env) = [(Resolve_options, Returned)] \<and> outputs (final env) = [] \<and>
      failures (final env) = [msg]"
    if "resolvePublishActionOptions env = Inr options"
      and "parseSemverTagFromRef env options = Inl (Error msg)" for msg
    using that
    by (simp add: final_def run_def run_try_def andThen_def cfg_resolvePublishActionOptions_def
        external_def outcome_of_def core_info_def lift_result_def core_setFailed_def init_state_def)
  assume o: "resolvePublishActionOptions env = Inr options"
  {
    assume n: "\<not> startsWith (ref options) ''refs/tags/''"
    have "parseSemverTagFromRef env options =
        Inl (Error (''The ref '' @ ref options @ '' is not a valid tag reference.''))"
      using n by (simp add: parseSemverTagFromRef_def err_not_a_tag_ref_def)
    from f [OF o this]
    show "trace (final env) = [(Resolve_options, Returned)]" "outputs (final env) = []"
      "failures (final env) = [''The ref '' @ ref options @ '' is not a valid tag reference.'']"
      by blast+
  }
  {
    assume t: "ref options = ''refs/tags/'' @ rawTag \<and>
      semver_parse env (replace_leading ''v'' rawTag) = None"
    have s: "startsWith (ref options) ''refs/tags/''"
      using t startsWith_append [of "''refs/tags/''" rawTag] by (simp only:)
    have l: "replace_leading ''refs/tags/'' (ref options) = rawTag"
      using t replace_leading_append [of "''refs/tags/''" rawTag] by (simp only:)
    have "parseSemverTagFromRef env options =
        Inl (Error (rawTag @
          '' is not a valid semantic version tag, and so cannot be uploaded to the action package.''))"
      using t [THEN conjunct2]
      by (simp add: parseSemverTagFromRef_def err_not_a_semver_tag_def s l)
    from f [OF o this]
    show "trace (final env) = [(Resolve_options, Returned)]" "outputs (final env) = []"
      "failures (final env) = [rawTag @
           '' is not a valid semantic version tag, and so cannot be uploaded to the action package.'']"
      by blast+
  }
qed

text \<open>C8 at the ref \<^verbatim>\<open>refs/heads/main\<close> and at the tag \<^verbatim>\<open>latest\<close>.\<close>

theorem invalid_ref_fails_before_any_work_witness:
  "resolvePublishActionOptions demo_env_branch_ref = Inr (demo_options\<lparr>ref := ''refs/heads/main''\<rparr>) \<and>
   \<not> startsWith (ref (demo_options\<lparr>ref := ''refs/heads/main''\<rparr>)) ''refs/tags/'' \<and>
   fst (run demo_env_branch_ref init_state) = Inr () \<and>
   trace (final demo_env_branch_ref) = [(Resolve_options, Returned)] \<and>
   outputs (final demo_env_branch_ref) = [] \<and>
   failures (final demo_env_branch_ref) = [''The ref refs/heads/main is not a valid tag reference.''] \<and>
   resolvePublishActionOptions demo_env_bad_tag = Inr (demo_options\<lparr>ref := ''refs/tags/latest''\<rparr>) \<and>
   ref (demo_options\<lparr>ref := ''refs/tags/latest''\<rparr>) = ''refs/tags/'' @ ''latest'' \<and>
   semver_parse demo_env_bad_tag (replace_leading ''v'' ''latest'') = None \<and>
   trace (final demo_env_bad_tag) = [(Resolve_options, Returned)] \<and>
   outputs (final demo_env_bad_tag) = [] \<and>
   failures (final demo_env_bad_tag) =
     [''latest is not a valid semantic version tag, and so cannot be uploaded to the action package.'']"
proof -
  have a: "resolvePublishActionOptions demo_env_branch_ref = Inr (demo_options\<lparr>ref := ''refs/heads/main''\<rparr>)"
    by (simp add: demo_env_branch_ref_def)
  have b: "\<not> startsWith (ref (demo_options\<lparr>ref := ''refs/heads/main''\<rparr>)) ''refs/tags/''"
    by (simp add: startsWith_def)
  from invalid_ref_fails_before_any_work [where env = demo_env_branch_ref
      and options = "demo_options\<lparr>ref := ''refs/heads/main''\<rparr>"] a b
  have c: "fst (run demo_env_branch_ref init_state) = Inr () \<and>
     trace (final demo_env_branch_ref) = [(Resolve_options, Returned)] \<and>
     outputs (final demo_env_branch_ref) = [] \<and>
     failures (final demo_env_branch_ref) =
       [''The ref '' @ ref (demo_options\<lparr>ref := ''refs/heads/main''\<rparr>) @
        '' is not a valid tag reference.'']"
    by blast
  have d: "resolvePublishActionOptions demo_env_bad_tag = Inr (demo_options\<lparr>ref := ''refs/tags/latest''\<rparr>)"
    by (simp add: demo_env_bad_tag_def)
  have e: "ref (demo_options\<lparr>ref := ''refs/tags/latest''\<rparr>) = ''refs/tags/'' @ ''latest''"
    by simp
  have g: "semver_parse demo_env_bad_tag (replace_leading ''v'' ''latest'') = None"
    by (simp add: demo_env_bad_tag_def demo_env_fields replace_leading_def startsWith_def)
  from invalid_ref_fails_before_any_work [where env = demo_env_bad_tag
      and options = "demo_options\<lparr>ref := ''refs/tags/latest''\<rparr>" and rawTag = "''latest''"] d e g
  have h: "trace (final demo_env_bad_tag) = [(Resolve_options, Returned)] \<and>
     outputs (final demo_env_bad_tag) = [] \<and>
     failures (final demo_env_bad_tag) =
       [''latest'' @
        '' is not a valid semantic version tag, and so cannot be uploaded to the action package.'']"
    by blast
  from a b c d e g h show ?thesis by simp
qed

subsection \<open>C9: the attestation request and the bundle digest\<close>

text \<open>
  C9. \<^verbatim>\<open>generateAttestation\<close> makes exactly one call, the request for the attestation,
  with the subject name \<^verbatim>\<open>nameWithOwner@semverTag\<close> and the subject digest
  \<^verbatim>\<open>removePrefix(manifestDigest, 'sha256:')\<close>, which for a digest \<^verbatim>\<open>sha256:h\<close> is \<open>h\<close>.
  When the request returns an attestation, the function returns the bytes of the
  serialised bundle and \<^verbatim>\<open>sha256:\<close> followed by the hex SHA-256 of those same bytes
  (\<open>crypto_sha256_hex\<close> stands for Node's \<^verbatim>\<open>createHash('sha256')\<close> with \<^verbatim>\<open>digest('hex')\<close>,
  whose output is lower-case hex).
\<close>

theorem generateAttestation_request_and_result:
  "(\<exists>oc. trace (snd (generateAttestation env manifestDigest semverTag options s)) =
      trace s @
      [(Attest_provenance
          \<lparr>subjectName = nameWithOwner options @ ''@'' @ semverTag,
           subjectDigest_sha256 = removePrefix manifestDigest ''sha256:'',
           attest_token = token options, sigstore = ''github'', skipWrite = True\<rparr>, oc)]) \<and>
   (manifestDigest = ''sha256:'' @ h \<longrightarrow> removePrefix manifestDigest ''sha256:'' = h) \<and>
   (attestProvenance env
      \<lparr>subjectName = nameWithOwner options @ ''@'' @ semverTag,
       subjectDigest_sha256 = removePrefix manifestDigest ''sha256:'',
       attest_token = token options, sigstore = ''github'', skipWrite = True\<rparr> = Inr att \<longrightarrow>
    fst (generateAttestation env manifestDigest semverTag options s) =
      Inr (JSON_stringify env (att_bundle att),
           ''sha256:'' @ crypto_sha256_hex env (JSON_stringify env (att_bundle att))))"
proof (intro conjI impI)
  show "\<exists>oc. trace (snd (generateAttestation env manifestDigest semverTag options s)) =
      trace s @
      [(Attest_provenance
          \<lparr>subjectName = nameWithOwner options @ ''@'' @ semverTag,
           subjectDigest_sha256 = removePrefix manifestDigest ''sha256:'',
           attest_token = token options, sigstore = ''github'', skipWrite = True\<rparr>, oc)]"
    by (simp add: generateAttestation_def andThen_def core_info_def attest_attestProvenance_def
      external_def return_def Let_def split: sum.splits)
next
  assume "manifestDigest = ''sha256:'' @ h"
  then show "removePrefix manifestDigest ''sha256:'' = h"
    by (simp only: removePrefix_present)
next
  assume "attestProvenance env
      \<lparr>subjectName = nameWithOwner options @ ''@'' @ semverTag,
       subjectDigest_sha256 = removePrefix manifestDigest ''sha256:'',
       attest_token = token options, sigstore = ''github'', skipWrite = True\<rparr> = Inr att"
  then show "fst (generateAttestation env manifestDigest semverTag options s) =
      Inr (JSON_stringify env (att_bundle att),
           ''sha256:'' @ crypto_sha256_hex env (JSON_stringify env (att_bundle att)))"
    by (simp add: generateAttestation_def andThen_def core_info_def attest_attestProvenance_def
      external_def return_def Let_def Buffer_from_def)
qed

text \<open>C9 at the subject digest \<^verbatim>\<open>sha256:aa\<close> and the tag \<^verbatim>\<open>1.2.3\<close> of the concrete run.\<close>

theorem generateAttestation_request_and_result_witness:
  "trace (snd (generateAttestation demo_env ''sha256:aa'' ''1.2.3'' demo_options init_state)) =
     [(Attest_provenance demo_attest_options, Returned)] \<and>
   removePrefix ''sha256:aa'' ''sha256:'' = ''aa'' \<and>
   attestProvenance demo_env demo_attest_options = Inr \<lparr>att_bundle = ''{sig}''\<rparr> \<and>
   fst (generateAttestation demo_env ''sha256:aa'' ''1.2.3'' demo_options init_state) =
     Inr (''{sig}'', ''sha256:dd'')"
proof -
  have a: "\<lparr>subjectName = nameWithOwner demo_options @ ''@'' @ ''1.2.3'',
       subjectDigest_sha256 = removePrefix ''sha256:aa'' ''sha256:'',
       attest_token = token demo_options, sigstore = ''github'', skipWrite = True\<rparr> =
       demo_attest_options"
    by (simp add: demo_attest_options_def demo_options_def removePrefix_def startsWith_def slice_def)
  have b: "attestProvenance demo_env demo_attest_options = Inr \<lparr>att_bundle = ''{sig}''\<rparr>"
    by (simp add: demo_env_fields)
  have c: "''sha256:aa'' = ''sha256:'' @ ''aa''"
    by simp
  note g = generateAttestation_request_and_result [where env = demo_env
      and manifestDigest = "''sha256:aa''" and semverTag = "''1.2.3''" and options = demo_options
      and s = init_state and h = "''aa''" and att = "\<lparr>att_bundle = ''{sig}''\<rparr>", unfolded a]
  from g c have r: "removePrefix ''sha256:aa'' ''sha256:'' = ''aa''"
    by blast
  from g b have f: "fst (generateAttestation demo_env ''sha256:aa'' ''1.2.3'' demo_options init_state) =
     Inr (JSON_stringify demo_env (att_bundle \<lparr>att_bundle = ''{sig}''\<rparr>),
          ''sha256:'' @ crypto_sha256_hex demo_env (JSON_stringify demo_env (att_bundle \<lparr>att_bundle = ''{sig}''\<rparr>)))"
    by blast
  have t: "trace (snd (generateAttestation demo_env ''sha256:aa'' ''1.2.3'' demo_options init_state)) =
     [(Attest_provenance demo_attest_options, Returned)]"
    by (simp add: generateAttestation_def andThen_def core_info_def attest_attestProvenance_def
      external_def outcome_of_def return_def Let_def Buffer_from_def init_state_def demo_env_fields
      demo_attest_options_def demo_options_def removePrefix_def startsWith_def slice_def)
  from t r b f show ?thesis by (simp add: demo_env_fields)
qed

subsection \<open>C10: what the \<^verbatim>\<open>catch\<close> clause does\<close>

text \<open>
  C10 says that when a step throws a value that is no \<^verbatim>\<open>Error\<close>, the run returns with
  no failure reported and no output set. The last part fails when the throw comes after
  the attestation branch has completed: the two attestation outputs are set on lines 90
  and 94, before the subject manifest is published. Here the upload of the subject
  manifest throws the value \<^verbatim>\<open>503\<close>: the run returns, reports no failure, and has set
  \<^verbatim>\<open>attestation-manifest-sha\<close> and \<^verbatim>\<open>referrer-index-manifest-sha\<close>.
\<close>

theorem run_emits_outputs_before_non_error_throw_counterexample:
  "(demo_subject_upload, Threw (NonError ''503'')) \<in> set (trace (final demo_env_subject_throws)) \<and>
   \<not> instanceof_Error (NonError ''503'') \<and>
   fst (run_try demo_env_subject_throws init_state) = Inl (NonError ''503'') \<and>
   fst (run demo_env_subject_throws init_state) = Inr () \<and>
   failures (final demo_env_subject_throws) = [] \<and>
   outputs (final demo_env_subject_throws) =
     [(''attestation-manifest-sha'', ''sha256:bb''), (''referrer-index-manifest-sha'', ''sha256:cc'')] \<and>
   outputs (final demo_env_subject_throws) \<noteq> []"
proof -
  have "fst (run demo_env_subject_throws init_state) = Inr ()"
    by (simp add: run_def core_setFailed_def split: prod.splits sum.splits)
  with demo_run_subject_throws demo_throws(3) show ?thesis by simp
qed

text \<open>
  C10, amended. \<^verbatim>\<open>run\<close> always returns. It calls \<^verbatim>\<open>core.setFailed\<close> exactly when the body
  of its \<^verbatim>\<open>try\<close> block threw an \<^verbatim>\<open>Error\<close>, once, with the message of that \<^verbatim>\<open>Error\<close>;
  the body itself never calls it. If a collaborator throws a value that is no \<^verbatim>\<open>Error\<close>,
  no failure is reported and \<^verbatim>\<open>package-manifest-sha\<close> is not set. If the throw did not
  come from the stage that publishes the subject manifest (reading the archives,
  uploading the manifest), no output is set at all. If it came from that stage, the
  outputs are exactly what was set before: nothing when the run made no call of the
  attestation branch, and otherwise \<^verbatim>\<open>attestation-manifest-sha\<close> and
  \<^verbatim>\<open>referrer-index-manifest-sha\<close>, in this order, with the digests the registry returned
  for the attestation manifest and for the referrer index.
\<close>

theorem run_catches_every_throw:
  "fst (run env init_state) = Inr () \<and>
   (case fst (run_try env init_state) of
      Inl e \<Rightarrow> failures (final env) = (if instanceof_Error e then [message e] else [])
    | Inr u \<Rightarrow> failures (final env) = []) \<and>
   ((c, Threw e') \<in> set (trace (final env)) \<and> \<not> instanceof_Error e' \<longrightarrow>
      failures (final env) = [] \<and>
      (\<forall>v. (''package-manifest-sha'', v) \<notin> set (outputs (final env))) \<and>
      (\<not> is_subject_stage_call c \<longrightarrow> outputs (final env) = []) \<and>
      (is_subject_stage_call c \<longrightarrow>
         (if \<exists>x\<in>set (trace (final env)). is_attestation_call (fst x)
          then \<exists>t u n am files ix tg a r.
                 (Upload_image_manifest t u n am files None, Returned) \<in> set (trace (final env)) \<and>
                 uploadOCIImageManifest env t u n am files None = Inr a \<and>
                 (Upload_index_manifest t u n ix tg, Returned) \<in> set (trace (final env)) \<and>
                 uploadOCIIndexManifest env t u n ix tg = Inr r \<and>
                 outputs (final env) =
                   [(''attestation-manifest-sha'', a), (''referrer-index-manifest-sha'', r)]
          else outputs (final env) = [])))"
proof -
  have a: "fst (run env init_state) = Inr ()"
    by (simp add: run_def core_setFailed_def split: prod.splits sum.splits)
  let ?R = "\<lambda>r. failures (snd r) = []"
  have "?R (run_try env init_state)"
    apply (rule action_wpI [where P = "?R"])
    unfolding run_unfold
    apply (intro wp_intros)
    apply (simp_all add: init_state_def)
    done
  then have b: "case fst (run_try env init_state) of
      Inl e \<Rightarrow> failures (final env) = (if instanceof_Error e then [message e] else [])
    | Inr u \<Rightarrow> failures (final env) = []"
    by (auto simp: final_def run_def core_setFailed_def split: prod.splits sum.splits)
  let ?P = "\<lambda>s. (c, Threw e') \<in> set (trace s) \<and> \<not> instanceof_Error e' \<longrightarrow>
      failures s = [] \<and>
      (\<forall>v. (''package-manifest-sha'', v) \<notin> set (outputs s)) \<and>
      (\<not> is_subject_stage_call c \<longrightarrow> outputs s = []) \<and>
      (is_subject_stage_call c \<longrightarrow>
         (if \<exists>x\<in>set (trace s). is_attestation_call (fst x)
          then \<exists>t u n am files ix tg a r.
                 (Upload_image_manifest t u n am files None, Returned) \<in> set (trace s) \<and>
                 uploadOCIImageManifest env t u n am files None = Inr a \<and>
                 (Upload_index_manifest t u n ix tg, Returned) \<in> set (trace s) \<and>
                 uploadOCIIndexManifest env t u n ix tg = Inr r \<and>
                 outputs s =
                   [(''attestation-manifest-sha'', a), (''referrer-index-manifest-sha'', r)]
          else outputs s = []))"
  have c: "?P (final env)"
    apply (rule final_wpI [where P = "?P"])
    unfolding run_unfold
    apply (intro wp_intros)
    apply (auto simp: init_state_def catch_state_def)
    done
  show ?thesis
    by (rule conjI [OF a conjI [OF b c]])
qed

text \<open>
  The amended C10 at a signing service that throws the value \<^verbatim>\<open>timeout\<close>, at one that
  throws an \<^verbatim>\<open>Error\<close>, at the run in which nothing throws, and at a registry client that
  throws the value \<^verbatim>\<open>503\<close> when the subject manifest is uploaded.
\<close>

theorem run_catches_every_throw_witness:
  "fst (run demo_env_signing_rejects init_state) = Inr () \<and>
   fst (run_try demo_env_signing_rejects init_state) = Inl (NonError ''timeout'') \<and>
   (Attest_provenance demo_attest_options, Threw (NonError ''timeout'')) \<in>
     set (trace (final demo_env_signing_rejects)) \<and>
   \<not> instanceof_Error (NonError ''timeout'') \<and>
   \<not> is_subject_stage_call (Attest_provenance demo_attest_options :: (string, string) call) \<and>
   failures (final demo_env_signing_rejects) = [] \<and>
   outputs (final demo_env_signing_rejects) = [] \<and>
   fst (run_try demo_env_signing_fails init_state) = Inl (Error ''signing failed'') \<and>
   failures (final demo_env_signing_fails) = [''signing failed''] \<and>
   fst (run_try demo_env init_state) = Inr () \<and>
   failures (final demo_env) = [] \<and>
   (demo_subject_upload, Threw (NonError ''503'')) \<in> set (trace (final demo_env_subject_throws)) \<and>
   \<not> instanceof_Error (NonError ''503'') \<and>
   is_subject_stage_call demo_subject_upload \<and>
   (\<exists>x\<in>set (trace (final demo_env_subject_throws)). is_attestation_call (fst x)) \<and>
   failures (final demo_env_subject_throws) = [] \<and>
   (\<exists>t u n am files ix tg a r.
      (Upload_image_manifest t u n am files None, Returned) \<in>
        set (trace (final demo_env_subject_throws)) \<and>
      uploadOCIImageManifest demo_env_subject_throws t u n am files None = Inr a \<and>
      (Upload_index_manifest t u n ix tg, Returned) \<in> set (trace (final demo_env_subject_throws)) \<and>
      uploadOCIIndexManifest demo_env_subject_throws t u n ix tg = Inr r \<and>
      outputs (final demo_env_subject_throws) =
        [(''attestation-manifest-sha'', a), (''referrer-index-manifest-sha'', r)]) \<and>
   outputs (final demo_env_subject_throws) =
     [(''attestation-manifest-sha'', ''sha256:bb''), (''referrer-index-manifest-sha'', ''sha256:cc'')]"
proof -
  have a: "(Attest_provenance demo_attest_options, Threw (NonError ''timeout'')) \<in>
     set (trace (final demo_env_signing_rejects))"
    by (simp add: demo_run_signing_rejects)
  have b: "\<not> instanceof_Error (NonError ''timeout'')"
    "\<not> is_subject_stage_call (Attest_provenance demo_attest_options :: (string, string) call)"
    by simp_all
  from run_catches_every_throw [where env = demo_env_signing_rejects
      and c = "Attest_provenance demo_attest_options" and e' = "NonError ''timeout''"] a b
  have r: "fst (run demo_env_signing_rejects init_state) = Inr () \<and>
     failures (final demo_env_signing_rejects) = [] \<and>
     outputs (final demo_env_signing_rejects) = []"
    by blast
  from run_catches_every_throw [where env = demo_env_signing_fails
      and c = "Attest_provenance demo_attest_options" and e' = "NonError ''timeout''"]
    demo_throws(1)
  have f: "failures (final demo_env_signing_fails) = [''signing failed'']"
    by simp
  from run_catches_every_throw [where env = demo_env
      and c = "Attest_provenance demo_attest_options" and e' = "NonError ''timeout''"]
    demo_throws(4)
  have g: "failures (final demo_env) = []"
    by simp
  have h: "(demo_subject_upload, Threw (NonError ''503'')) \<in> set (trace (final demo_env_subject_throws))"
    by (simp add: demo_run_subject_throws)
  have i: "\<not> instanceof_Error (NonError ''503'')" "is_subject_stage_call demo_subject_upload"
    by (simp_all add: demo_subject_upload_def)
  have j: "\<exists>x\<in>set (trace (final demo_env_subject_throws)). is_attestation_call (fst x)"
    by (simp add: demo_run_subject_throws demo_attestation_def)
  from run_catches_every_throw [where env = demo_env_subject_throws
      and c = demo_subject_upload and e' = "NonError ''503''"] h i j
  have k: "failures (final demo_env_subject_throws) = [] \<and>
   (\<exists>t u n am files ix tg a r.
      (Upload_image_manifest t u n am files None, Returned) \<in>
        set (trace (final demo_env_subject_throws)) \<and>
      uploadOCIImageManifest demo_env_subject_throws t u n am files None = Inr a \<and>
      (Upload_index_manifest t u n ix tg, Returned) \<in> set (trace (final demo_env_subject_throws)) \<and>
      uploadOCIIndexManifest demo_env_subject_throws t u n ix tg = Inr r \<and>
      outputs (final demo_env_subject_throws) =
        [(''attestation-manifest-sha'', a), (''referrer-index-manifest-sha'', r)])"
    by simp
  have l: "outputs (final demo_env_subject_throws) =
     [(''attestation-manifest-sha'', ''sha256:bb''), (''referrer-index-manifest-sha'', ''sha256:cc'')]"
    by (simp add: demo_run_subject_throws)
  from a b r f g h i j k l demo_throws show ?thesis
    by (intro conjI) blast+
qed

end
